theory Spec2Isabelle
  imports Main "HOL-Library.Word"
begin

unbundle bit_operations_syntax

section \<open>Data model (can\_communication.h, can\_communication.c)\<close>

type_synonym u8 = "8 word"
type_synonym u32 = "32 word"

text \<open>
  The C array type \<^verbatim>\<open>uint8_t [8]\<close>: exactly eight bytes. Every index the source
  uses on such an array is a loop counter below 8.
\<close>

typedef byte8 = "{xs :: u8 list. length xs = 8}"
  by (rule exI [of _ "replicate 8 0"]) simp

definition bytes :: "byte8 \<Rightarrow> u8 list" where
  "bytes a = Rep_byte8 a"

definition rd8 :: "byte8 \<Rightarrow> nat \<Rightarrow> u8" where
  "rd8 a i = Rep_byte8 a ! i"

definition wr8 :: "byte8 \<Rightarrow> nat \<Rightarrow> u8 \<Rightarrow> byte8" where
  "wr8 a i v = Abs_byte8 ((Rep_byte8 a)[i := v])"

text \<open>
  A brace initialiser \<^verbatim>\<open>{b0, b1, ...}\<close> of an eight-byte array: the bytes given,
  the missing ones zero (so \<^verbatim>\<open>{0}\<close> is eight zero bytes).
\<close>

definition array8 :: "u8 list \<Rightarrow> byte8" where
  "array8 xs = Abs_byte8 (take 8 (xs @ replicate 8 0))"

record CAN_Message_t =
  msg_id :: u32
  msg_dlc :: u8
  msg_data :: byte8
  msg_timestamp :: u32

record CAN_Stats_t =
  messagesTransmitted :: u32
  messagesReceived :: u32
  errorCount :: u32
  lastErrorCode :: u32

subsection \<open>Names of the device headers\<close>

text \<open>
  The macros of the device and driver-library headers are not part of the sources; the
  ones that only travel as arguments are kept as symbolic names.
\<close>

datatype periph = SYSCTL_PERIPH_CLK_CANA
datatype pin_config = DEVICE_GPIO_CFG_CANTXA | DEVICE_GPIO_CFG_CANRXA
datatype can_base = CANA_BASE
datatype sysclk = DEVICE_SYSCLK_FREQ
datatype frame_type = CAN_MSG_FRAME_STD
datatype obj_type = CAN_MSG_OBJ_TYPE_TX | CAN_MSG_OBJ_TYPE_RX
datatype obj_flags = CAN_MSG_OBJ_NO_FLAGS | CAN_MSG_OBJ_RX_INT_ENABLE
datatype int_flag = CAN_INT_IE0 | CAN_INT_ERROR | CAN_INT_STATUS
datatype test_flag = CAN_TEST_SILENT | CAN_TEST_LBACK
datatype gpio_pin = DEVICE_GPIO_PIN_LED1 | DEVICE_GPIO_PIN_LED2
datatype dir_mode = GPIO_DIR_MODE_OUT

text \<open>
  The error-status masks \<^verbatim>\<open>CAN_ES_*\<close> are tested bitwise by the error handler; their
  values are not in the sources, so the handler takes them as a parameter.
\<close>

record can_es =
  CAN_ES_TXWARN :: u32
  CAN_ES_RXWARN :: u32
  CAN_ES_TXERRPASSED :: u32
  CAN_ES_RXERRPASSED :: u32
  CAN_ES_BUSOFF :: u32

subsection \<open>Configuration parameters\<close>

definition CAN_MODULE :: can_base where
  "CAN_MODULE = CANA_BASE"

definition CAN_BITRATE_KBPS :: u32 where
  "CAN_BITRATE_KBPS = 500"

definition CAN_USE_LOOPBACK :: bool where
  "CAN_USE_LOOPBACK = False"

definition CAN_TX_MSG_ID :: u32 where
  "CAN_TX_MSG_ID = 0x123"

definition CAN_RX_MSG_ID :: u32 where
  "CAN_RX_MSG_ID = 0x456"

definition CAN_ECHO_MSG_ID :: u32 where
  "CAN_ECHO_MSG_ID = 0x789"

definition CAN_TX_MSG_OBJ :: u32 where
  "CAN_TX_MSG_OBJ = 1"

definition CAN_RX_MSG_OBJ :: u32 where
  "CAN_RX_MSG_OBJ = 2"

definition STATUS_LED_PIN :: gpio_pin where
  "STATUS_LED_PIN = DEVICE_GPIO_PIN_LED1"

definition ERROR_LED_PIN :: gpio_pin where
  "ERROR_LED_PIN = DEVICE_GPIO_PIN_LED2"

subsection \<open>Calls into the driver library, and the driver's state\<close>

text \<open>
  Every call the sources make into the driver library or the GPIO layer is an effect on
  the hardware. The model records them, in order and with their arguments, in a trace.
  The frame buffer handed to the bus layer is a list of cells; \<open>None\<close> is a cell of the
  local array that was never written. \<open>Call_Test_delay n\<close> stands for the busy wait of
  \<open>n\<close> no-operation iterations of the test harness.
\<close>

datatype event =
    Call_SysCtl_enablePeripheral periph
  | Call_GPIO_setPinConfig pin_config
  | Call_CAN_initRAM can_base
  | Call_CAN_setBitRate can_base sysclk u32
  | Call_CAN_setupMessageObject can_base u32 u32 frame_type obj_type u32 obj_flags u32
  | Call_CAN_enableModule can_base
  | Call_CAN_setTestMode can_base "test_flag set"
  | Call_CAN_enableInterrupt can_base "int_flag set"
  | Call_CAN_sendMessage can_base u32 u8 "u8 option list"
  | Call_GPIO_setDirectionMode gpio_pin dir_mode
  | Call_GPIO_writePin gpio_pin u32
  | Call_GPIO_togglePin gpio_pin
  | Call_Test_delay u32

text \<open>
  The three file-scope variables of can\_communication.c, and the trace.
\<close>

record driver_state =
  canStats :: CAN_Stats_t
  lastRxMessage :: CAN_Message_t
  messageReceived :: u8
  trace :: "event list"

text \<open>The static initialisers: all counters 0, the slot empty, the flag 0.\<close>

definition boot_state :: driver_state where
  "boot_state =
     \<lparr>canStats = \<lparr>messagesTransmitted = 0, messagesReceived = 0, errorCount = 0,
                   lastErrorCode = 0\<rparr>,
      lastRxMessage = \<lparr>msg_id = 0, msg_dlc = 0, msg_data = array8 [0], msg_timestamp = 0\<rparr>,
      messageReceived = 0,
      trace = []\<rparr>"

definition call :: "event \<Rightarrow> driver_state \<Rightarrow> driver_state" where
  "call e s = s\<lparr>trace := trace s @ [e]\<rparr>"

text \<open>
  What C leaves undefined and the source does not guard: reading the caller's buffer
  beyond its end, writing the local array beyond its end.
\<close>

datatype fault = Read_Out_Of_Bounds | Write_Out_Of_Bounds

section \<open>Driver functions (can\_communication.c)\<close>

subsection \<open>CAN\_initModule\<close>

definition CAN_initModule :: "driver_state \<Rightarrow> driver_state" where
  "CAN_initModule s0 =
     (let s = call (Call_SysCtl_enablePeripheral SYSCTL_PERIPH_CLK_CANA) s0;
          s = call (Call_GPIO_setPinConfig DEVICE_GPIO_CFG_CANTXA) s;
          s = call (Call_GPIO_setPinConfig DEVICE_GPIO_CFG_CANRXA) s;
          s = call (Call_CAN_initRAM CAN_MODULE) s;
          s = call (Call_CAN_setBitRate CAN_MODULE DEVICE_SYSCLK_FREQ
                      (CAN_BITRATE_KBPS * 1000)) s;
          s = call (Call_CAN_setupMessageObject CAN_MODULE CAN_TX_MSG_OBJ CAN_TX_MSG_ID
                      CAN_MSG_FRAME_STD CAN_MSG_OBJ_TYPE_TX 0 CAN_MSG_OBJ_NO_FLAGS 8) s;
          s = call (Call_CAN_setupMessageObject CAN_MODULE CAN_RX_MSG_OBJ CAN_RX_MSG_ID
                      CAN_MSG_FRAME_STD CAN_MSG_OBJ_TYPE_RX 0 CAN_MSG_OBJ_RX_INT_ENABLE 8) s;
          s = call (Call_CAN_enableModule CAN_MODULE) s;
          s = (if CAN_USE_LOOPBACK
               then call (Call_CAN_setTestMode CAN_MODULE {CAN_TEST_SILENT, CAN_TEST_LBACK}) s
               else s)
      in call (Call_CAN_enableInterrupt CAN_MODULE
                 {CAN_INT_IE0, CAN_INT_ERROR, CAN_INT_STATUS}) s)"

subsection \<open>CAN\_sendMessage\<close>

text \<open>
  The two loops over the local \<^verbatim>\<open>msgData[8]\<close>. The counter \<open>idx\<close> never passes 8,
  so it is a natural number. The first loop reads the caller's buffer, a region of
  memory whose extent is the list's length.
\<close>

function copy_loop ::
  "nat \<Rightarrow> nat \<Rightarrow> u8 list \<Rightarrow> u8 option list \<Rightarrow> fault + (nat \<times> u8 option list)" where
  "copy_loop idx dlc data msgData =
     (if idx < dlc then
        (if \<not> idx < length data then Inl Read_Out_Of_Bounds
         else if \<not> idx < length msgData then Inl Write_Out_Of_Bounds
         else copy_loop (Suc idx) dlc data (msgData[idx := Some (data ! idx)]))
      else Inr (idx, msgData))"
  by pat_completeness auto
termination
  by (relation "measure (\<lambda>(idx, dlc, data, msgData). dlc - idx)") auto

function pad_loop :: "nat \<Rightarrow> u8 option list \<Rightarrow> fault + u8 option list" where
  "pad_loop idx msgData =
     (if idx < 8 then
        (if \<not> idx < length msgData then Inl Write_Out_Of_Bounds
         else pad_loop (Suc idx) (msgData[idx := Some 0]))
      else Inr msgData)"
  by pat_completeness auto
termination
  by (relation "measure (\<lambda>(idx, msgData). 8 - idx)") auto

declare copy_loop.simps [simp del] pad_loop.simps [simp del]

text \<open>
  The parameter \<open>msgId\<close> is not used by the body: the frame goes out through the
  transmit object, whatever the identifier. The inner call with four arguments is the
  driver library's function of the same name.
\<close>

definition CAN_sendMessage ::
  "u32 \<Rightarrow> u8 list \<Rightarrow> u8 \<Rightarrow> driver_state \<Rightarrow> fault + driver_state" where
  "CAN_sendMessage msgId data dlc0 s =
     (let dlc = (if dlc0 > 8 then 8 else dlc0) in
      case copy_loop 0 (unat dlc) data (replicate 8 None) of
        Inl f \<Rightarrow> Inl f
      | Inr (idx, msgData) \<Rightarrow>
          (case pad_loop idx msgData of
             Inl f \<Rightarrow> Inl f
           | Inr msgData \<Rightarrow>
               let s = call (Call_CAN_sendMessage CAN_MODULE CAN_TX_MSG_OBJ dlc msgData) s
               in Inr (s\<lparr>canStats := (canStats s)
                          \<lparr>messagesTransmitted := messagesTransmitted (canStats s) + 1\<rparr>\<rparr>)))"

subsection \<open>CAN\_receiveMessage\<close>

function copy8 :: "nat \<Rightarrow> byte8 \<Rightarrow> byte8 \<Rightarrow> byte8" where
  "copy8 idx src dst =
     (if idx < 8 then copy8 (Suc idx) src (wr8 dst idx (rd8 src idx)) else dst)"
  by pat_completeness auto
termination
  by (relation "measure (\<lambda>(idx, src, dst). 8 - idx)") auto

declare copy8.simps [simp del]

text \<open>
  The source stores through \<open>msg\<close> without testing it, and every call in the sources
  passes the address of a local structure: \<open>msg\<close> is what the pointer refers to, and
  the function returns its result, the new content behind the pointer and the new state.
  The local \<^verbatim>\<open>msgData\<close> of the source is never used.
\<close>

definition CAN_receiveMessage ::
  "CAN_Message_t \<Rightarrow> driver_state \<Rightarrow> u8 \<times> CAN_Message_t \<times> driver_state" where
  "CAN_receiveMessage msg s0 =
     (if messageReceived s0 = 0 then (0, msg, s0)
      else
        (let m = msg\<lparr>msg_id := msg_id (lastRxMessage s0)\<rparr>;
             m = m\<lparr>msg_dlc := msg_dlc (lastRxMessage s0)\<rparr>;
             m = m\<lparr>msg_data := copy8 0 (msg_data (lastRxMessage s0)) (msg_data m)\<rparr>;
             m = m\<lparr>msg_timestamp := msg_timestamp (lastRxMessage s0)\<rparr>;
             s = s0\<lparr>messageReceived := 0\<rparr>;
             s = s\<lparr>canStats := (canStats s)
                    \<lparr>messagesReceived := messagesReceived (canStats s) + 1\<rparr>\<rparr>
         in (1, m, s)))"

subsection \<open>CAN\_setLED, CAN\_toggleLED, CAN\_errorHandler\<close>

definition CAN_setLED :: "gpio_pin \<Rightarrow> u8 \<Rightarrow> driver_state \<Rightarrow> driver_state" where
  "CAN_setLED gpio state s = call (Call_GPIO_writePin gpio (ucast state)) s"

definition CAN_toggleLED :: "gpio_pin \<Rightarrow> driver_state \<Rightarrow> driver_state" where
  "CAN_toggleLED gpio s = call (Call_GPIO_togglePin gpio) s"

text \<open>The four warning tests have empty bodies in the source.\<close>

definition CAN_errorHandler :: "can_es \<Rightarrow> u32 \<Rightarrow> driver_state \<Rightarrow> driver_state" where
  "CAN_errorHandler es errorStatus s0 =
     (let s = s0\<lparr>canStats := (canStats s0)\<lparr>errorCount := errorCount (canStats s0) + 1\<rparr>\<rparr>;
          s = s\<lparr>canStats := (canStats s)\<lparr>lastErrorCode := errorStatus\<rparr>\<rparr>;
          s = CAN_setLED ERROR_LED_PIN 1 s;
          s = (if errorStatus AND CAN_ES_TXWARN es \<noteq> 0 then s else s);
          s = (if errorStatus AND CAN_ES_RXWARN es \<noteq> 0 then s else s);
          s = (if errorStatus AND CAN_ES_TXERRPASSED es \<noteq> 0 then s else s);
          s = (if errorStatus AND CAN_ES_RXERRPASSED es \<noteq> 0 then s else s)
      in if errorStatus AND CAN_ES_BUSOFF es \<noteq> 0 then CAN_initModule s else s)"

subsection \<open>CAN\_getStats\<close>

text \<open>
  The pointer \<open>stats\<close> is tested against null: \<open>None\<close> is the null pointer, \<open>Some d\<close>
  a pointer to a structure holding \<open>d\<close>. A caller that passed the address of a local
  reads the local back with \<open>pointee\<close>.
\<close>

definition pointee :: "'a option \<Rightarrow> 'a \<Rightarrow> 'a" where
  "pointee p old = (case p of None \<Rightarrow> old | Some v \<Rightarrow> v)"

definition CAN_getStats ::
  "CAN_Stats_t option \<Rightarrow> driver_state \<Rightarrow> u8 \<times> CAN_Stats_t option \<times> driver_state" where
  "CAN_getStats stats s =
     (case stats of
        None \<Rightarrow> (0, None, s)
      | Some d0 \<Rightarrow>
          let d = d0\<lparr>messagesTransmitted := messagesTransmitted (canStats s)\<rparr>;
              d = d\<lparr>messagesReceived := messagesReceived (canStats s)\<rparr>;
              d = d\<lparr>errorCount := errorCount (canStats s)\<rparr>;
              d = d\<lparr>lastErrorCode := lastErrorCode (canStats s)\<rparr>
          in (1, Some d, s))"

subsection \<open>CAN\_processMessage\<close>

text \<open>
  The echo is compiled only under the build flag \<^verbatim>\<open>RUN_UNIT_TESTS\<close>, a parameter here.
\<close>

definition CAN_processMessage ::
  "bool \<Rightarrow> u32 \<Rightarrow> u8 list \<Rightarrow> u8 \<Rightarrow> driver_state \<Rightarrow> fault + driver_state" where
  "CAN_processMessage RUN_UNIT_TESTS msgId data dlc s =
     (if msgId = CAN_RX_MSG_ID then
        (if RUN_UNIT_TESTS then CAN_sendMessage CAN_ECHO_MSG_ID data dlc s else Inr s)
      else if msgId = CAN_ECHO_MSG_ID then Inr s
      else Inr s)"

subsection \<open>main\<close>

text \<open>
  \<^verbatim>\<open>main\<close> up to its application loop: the two indicators are made outputs and
  switched off, then the module is initialised. The board bring-up before that and the
  enabling of the interrupts after it are outside the model.
\<close>

definition main_init :: "driver_state \<Rightarrow> driver_state" where
  "main_init s0 =
     (let s = call (Call_GPIO_setDirectionMode STATUS_LED_PIN GPIO_DIR_MODE_OUT) s0;
          s = call (Call_GPIO_setDirectionMode ERROR_LED_PIN GPIO_DIR_MODE_OUT) s;
          s = call (Call_GPIO_writePin STATUS_LED_PIN 0) s;
          s = call (Call_GPIO_writePin ERROR_LED_PIN 0) s
      in CAN_initModule s)"

subsection \<open>The test functions of can\_communication.c\<close>

text \<open>
  The busy wait of \<^verbatim>\<open>CAN_testLoopback\<close>. The flag is \<^verbatim>\<open>volatile\<close>: it is meant to be
  raised from outside the program's flow, but no function of the sources does that, so
  within a call the flag is what it was when the call began.
\<close>

function wait_loop :: "u32 \<Rightarrow> driver_state \<Rightarrow> u32" where
  "wait_loop timeout s =
     (if timeout > 0 \<and> messageReceived s = 0 then wait_loop (timeout - 1) s else timeout)"
  by pat_completeness auto
termination
  by (relation "measure (\<lambda>(timeout, s). unat timeout)")
    (auto simp: unat_minus_one word_greater_zero_iff unat_gt_0)

function match_loop :: "nat \<Rightarrow> byte8 \<Rightarrow> byte8 \<Rightarrow> u8 \<Rightarrow> u8" where
  "match_loop idx rx testData dataMatches =
     (if idx < 8 then
        match_loop (Suc idx) rx testData
          (if rd8 rx idx \<noteq> rd8 testData idx then 0 else dataMatches)
      else dataMatches)"
  by pat_completeness auto
termination
  by (relation "measure (\<lambda>(idx, rx, testData, dataMatches). 8 - idx)") auto

declare wait_loop.simps [simp del] match_loop.simps [simp del]

definition bump_errorCount :: "driver_state \<Rightarrow> driver_state" where
  "bump_errorCount s = s\<lparr>canStats := (canStats s)\<lparr>errorCount := errorCount (canStats s) + 1\<rparr>\<rparr>"

definition CAN_testLoopback :: "driver_state \<Rightarrow> fault + driver_state" where
  "CAN_testLoopback s0 =
     (let testData = array8 [0x11, 0x22, 0x33, 0x44, 0x55, 0x66, 0x77, 0x88];
          timeout = 100000
      in case CAN_sendMessage CAN_TX_MSG_ID (bytes testData) 8 s0 of
           Inl f \<Rightarrow> Inl f
         | Inr s \<Rightarrow>
             let timeout = wait_loop timeout s in
             if messageReceived s \<noteq> 0 \<and> msg_dlc (lastRxMessage s) = 8 then
               (let dataMatches = match_loop 0 (msg_data (lastRxMessage s)) testData 1 in
                if dataMatches \<noteq> 0 then Inr (s\<lparr>messageReceived := 0\<rparr>)
                else Inr (bump_errorCount s))
             else Inr (bump_errorCount s))"

definition CAN_testTransmit :: "driver_state \<Rightarrow> fault + driver_state" where
  "CAN_testTransmit s =
     (let txData = array8 [0xAA, 0xBB, 0xCC, 0xDD, 0xEE, 0xFF, 0x00, 0x11]
      in CAN_sendMessage CAN_TX_MSG_ID (bytes txData) 8 s)"

text \<open>
  The polling loop
  \<^verbatim>\<open>while((timeout > 0U) && (CAN_receiveMessage(&rxMsg) == 0U)) timeout--;\<close>
  of \<^verbatim>\<open>CAN_testReceive\<close>, \<^verbatim>\<open>Test_CAN_ReceiveMessage\<close> and \<^verbatim>\<open>Test_CAN_DataIntegrity\<close>.
  It returns the budget left, the local \<open>rxMsg\<close> and the state.
\<close>

function poll_loop ::
  "u32 \<Rightarrow> CAN_Message_t \<Rightarrow> driver_state \<Rightarrow> u32 \<times> CAN_Message_t \<times> driver_state" where
  "poll_loop timeout rxMsg s =
     (if timeout > 0 then
        (case CAN_receiveMessage rxMsg s of
           (r, rxMsg', s') \<Rightarrow>
             if r = 0 then poll_loop (timeout - 1) rxMsg' s' else (timeout, rxMsg', s'))
      else (timeout, rxMsg, s))"
  by pat_completeness auto
termination
  by (relation "measure (\<lambda>(timeout, rxMsg, s). unat timeout)")
    (auto simp: unat_minus_one word_greater_zero_iff unat_gt_0)

declare poll_loop.simps [simp del]

text \<open>
  The local \<open>rxMsg\<close> is declared without an initialiser: what it holds at first is a
  parameter.
\<close>

definition CAN_testReceive :: "CAN_Message_t \<Rightarrow> driver_state \<Rightarrow> driver_state" where
  "CAN_testReceive rxMsg0 s0 =
     (case poll_loop 1000000 rxMsg0 s0 of
        (timeout, rxMsg, s) \<Rightarrow>
          if messagesReceived (canStats s) > 0 then s else bump_errorCount s)"

text \<open>
  \<^verbatim>\<open>CAN_runUnitTests\<close> of can\_communication.c up to its endless blinking loop (the
  loop-back test is compiled out, \<^verbatim>\<open>CAN_USE_LOOPBACK\<close> being 0). It returns the two
  tallies with the state. The harness of can\_unit\_tests.c defines a function of the same
  name, modelled below under the plain name.
\<close>

definition CAN_runUnitTests_comm_tests :: "driver_state \<Rightarrow> fault + (u32 \<times> u32 \<times> driver_state)"
  where
  "CAN_runUnitTests_comm_tests s0 =
     (let testsPassed = 0; testsFailed = 0;
          s = s0\<lparr>canStats := (canStats s0)\<lparr>messagesTransmitted := 0\<rparr>\<rparr>;
          s = s\<lparr>canStats := (canStats s)\<lparr>messagesReceived := 0\<rparr>\<rparr>;
          s = s\<lparr>canStats := (canStats s)\<lparr>errorCount := 0\<rparr>\<rparr>;
          s = s\<lparr>canStats := (canStats s)\<lparr>messagesTransmitted := 0\<rparr>\<rparr>
      in case CAN_testTransmit s of
           Inl f \<Rightarrow> Inl f
         | Inr s \<Rightarrow>
             if messagesTransmitted (canStats s) \<ge> 1 then Inr (testsPassed + 1, testsFailed, s)
             else Inr (testsPassed, testsFailed + 1, s))"

subsection \<open>Sequences of calls\<close>

text \<open>
  A call of one of the functions of can\_communication.c that return, with its
  arguments; \<open>exec\<close> makes the call, \<open>run\<close> a sequence of calls, stopping at a fault.
\<close>

datatype driver_op =
    Op_initModule
  | Op_sendMessage u32 "u8 list" u8
  | Op_receiveMessage CAN_Message_t
  | Op_processMessage u32 "u8 list" u8
  | Op_errorHandler u32
  | Op_setLED gpio_pin u8
  | Op_toggleLED gpio_pin
  | Op_runUnitTests_comm_tests
  | Op_testLoopback
  | Op_testTransmit
  | Op_testReceive CAN_Message_t
  | Op_getStats "CAN_Stats_t option"

fun exec :: "can_es \<Rightarrow> bool \<Rightarrow> driver_op \<Rightarrow> driver_state \<Rightarrow> fault + driver_state" where
  "exec es rut Op_initModule s = Inr (CAN_initModule s)"
| "exec es rut (Op_sendMessage msgId data dlc) s = CAN_sendMessage msgId data dlc s"
| "exec es rut (Op_receiveMessage msg) s = Inr (snd (snd (CAN_receiveMessage msg s)))"
| "exec es rut (Op_processMessage msgId data dlc) s = CAN_processMessage rut msgId data dlc s"
| "exec es rut (Op_errorHandler errorStatus) s = Inr (CAN_errorHandler es errorStatus s)"
| "exec es rut (Op_setLED gpio state) s = Inr (CAN_setLED gpio state s)"
| "exec es rut (Op_toggleLED gpio) s = Inr (CAN_toggleLED gpio s)"
| "exec es rut Op_runUnitTests_comm_tests s =
     (case CAN_runUnitTests_comm_tests s of Inl f \<Rightarrow> Inl f | Inr (p, f, s') \<Rightarrow> Inr s')"
| "exec es rut Op_testLoopback s = CAN_testLoopback s"
| "exec es rut Op_testTransmit s = CAN_testTransmit s"
| "exec es rut (Op_testReceive rxMsg0) s = Inr (CAN_testReceive rxMsg0 s)"
| "exec es rut (Op_getStats stats) s = Inr (snd (snd (CAN_getStats stats s)))"

fun run :: "can_es \<Rightarrow> bool \<Rightarrow> driver_op list \<Rightarrow> driver_state \<Rightarrow> fault + driver_state" where
  "run es rut [] s = Inr s"
| "run es rut (op # ops) s =
     (case exec es rut op s of Inl f \<Rightarrow> Inl f | Inr s' \<Rightarrow> run es rut ops s')"

text \<open>
  The four operations of the driver's contract: send, receive, statistics, error handler.
\<close>

fun api_op :: "driver_op \<Rightarrow> bool" where
  "api_op (Op_sendMessage msgId data dlc) = True"
| "api_op (Op_receiveMessage msg) = True"
| "api_op (Op_getStats stats) = True"
| "api_op (Op_errorHandler errorStatus) = True"
| "api_op _ = False"

text \<open>The number of send calls in a sequence.\<close>

fun sends :: "driver_op list \<Rightarrow> nat" where
  "sends [] = 0"
| "sends (Op_sendMessage msgId data dlc # ops) = Suc (sends ops)"
| "sends (_ # ops) = sends ops"

text \<open>
  The number of receive calls that return 1 when the sequence is run from a state.
\<close>

fun receipts :: "can_es \<Rightarrow> bool \<Rightarrow> driver_op list \<Rightarrow> driver_state \<Rightarrow> nat" where
  "receipts es rut [] s = 0"
| "receipts es rut (op # ops) s =
     (case exec es rut op s of
        Inl f \<Rightarrow> 0
      | Inr s' \<Rightarrow>
          (case op of
             Op_receiveMessage msg \<Rightarrow> (if fst (CAN_receiveMessage msg s) = 1 then 1 else 0)
           | _ \<Rightarrow> 0) + receipts es rut ops s')"

section \<open>The test harness (can\_unit\_tests.c)\<close>

definition TEST_PATTERN_1 :: u8 where
  "TEST_PATTERN_1 = 0xAA"

definition TEST_PATTERN_2 :: u8 where
  "TEST_PATTERN_2 = 0x55"

definition TEST_PATTERN_3 :: u8 where
  "TEST_PATTERN_3 = 0xFF"

definition TEST_PATTERN_4 :: u8 where
  "TEST_PATTERN_4 = 0x00"

definition TEST_TIMEOUT_LOOPS :: u32 where
  "TEST_TIMEOUT_LOOPS = 1000000"

definition TEST_DELAY_LOOPS :: u32 where
  "TEST_DELAY_LOOPS = 100000"

definition TEST_PASS :: u8 where
  "TEST_PASS = 1"

definition TEST_FAIL :: u8 where
  "TEST_FAIL = 0"

record TestStats_t =
  testNumber :: u32
  totalTests :: u32
  passedTests :: u32
  failedTests :: u32
  lastTestResult :: u32
  testName :: string

text \<open>
  The harness has its own file-scope variable \<open>testStats\<close>; it reaches the driver's
  variables through the driver's functions only.
\<close>

record harness_state =
  drv :: driver_state
  testStats :: TestStats_t

definition testStats_init :: TestStats_t where
  "testStats_init =
     \<lparr>testNumber = 0, totalTests = 0, passedTests = 0, failedTests = 0, lastTestResult = 0,
      testName = []\<rparr>"

definition on_drv :: "(driver_state \<Rightarrow> driver_state) \<Rightarrow> harness_state \<Rightarrow> harness_state" where
  "on_drv f h = h\<lparr>drv := f (drv h)\<rparr>"

subsection \<open>Helpers\<close>

definition Test_printResult :: "u8 \<Rightarrow> harness_state \<Rightarrow> harness_state" where
  "Test_printResult result h0 =
     (let h = h0\<lparr>testStats := (testStats h0)\<lparr>lastTestResult := ucast result\<rparr>\<rparr>
      in if result = TEST_PASS then
           (let h = h\<lparr>testStats := (testStats h)\<lparr>passedTests := passedTests (testStats h) + 1\<rparr>\<rparr>
            in on_drv (call (Call_GPIO_writePin DEVICE_GPIO_PIN_LED1 1)) h)
         else
           (let h = h\<lparr>testStats := (testStats h)\<lparr>failedTests := failedTests (testStats h) + 1\<rparr>\<rparr>
            in on_drv (call (Call_GPIO_writePin DEVICE_GPIO_PIN_LED2 1)) h))"

text \<open>
  \<^verbatim>\<open>Test_delay\<close> runs \<open>loops\<close> no-operation instructions and changes no variable; the
  trace keeps the call.
\<close>

definition Test_delay :: "u32 \<Rightarrow> driver_state \<Rightarrow> driver_state" where
  "Test_delay loops s = call (Call_Test_delay loops) s"

definition Test_initStatusLEDs :: "driver_state \<Rightarrow> driver_state" where
  "Test_initStatusLEDs s0 =
     (let s = call (Call_GPIO_setDirectionMode DEVICE_GPIO_PIN_LED1 GPIO_DIR_MODE_OUT) s0;
          s = call (Call_GPIO_setDirectionMode DEVICE_GPIO_PIN_LED2 GPIO_DIR_MODE_OUT) s;
          s = call (Call_GPIO_writePin DEVICE_GPIO_PIN_LED1 0) s
      in call (Call_GPIO_writePin DEVICE_GPIO_PIN_LED2 0) s)"

subsection \<open>The six tests\<close>

text \<open>
  Locals declared without an initialiser (\<open>stats\<close>, \<open>statsBeforeTx\<close>, \<open>rxMsg\<close>, ...) start
  with whatever the stack holds: their first content is a parameter, named after the
  local with a 0.
\<close>

definition Test_CAN_BasicInitialization :: "CAN_Stats_t \<Rightarrow> driver_state \<Rightarrow> u8 \<times> driver_state"
  where
  "Test_CAN_BasicInitialization stats0 s0 =
     (case CAN_getStats (Some stats0) s0 of
        (r, p, s) \<Rightarrow>
          let stats = pointee p stats0 in
          if r \<noteq> 1 then (TEST_FAIL, s)
          else if messagesTransmitted stats \<noteq> 0 \<or> messagesReceived stats \<noteq> 0
          then (TEST_FAIL, s)
          else (TEST_PASS, s))"

text \<open>
  The source declares \<^verbatim>\<open>CAN_Stats_t statsBeforeWhen tx, statsAfter;\<close> and then uses
  \<^verbatim>\<open>statsBeforeTx\<close>: the declaration is read as that of \<^verbatim>\<open>statsBeforeTx\<close>.
\<close>

definition Test_CAN_TransmitMessage ::
  "CAN_Stats_t \<Rightarrow> CAN_Stats_t \<Rightarrow> driver_state \<Rightarrow> fault + (u8 \<times> driver_state)" where
  "Test_CAN_TransmitMessage statsBeforeTx0 statsAfter0 s0 =
     (let txData = array8 [TEST_PATTERN_1, TEST_PATTERN_2, TEST_PATTERN_3, TEST_PATTERN_4,
                           0x11, 0x22, 0x33, 0x44]
      in case CAN_getStats (Some statsBeforeTx0) s0 of
           (r, p, s) \<Rightarrow>
             let statsBeforeTx = pointee p statsBeforeTx0 in
             (case CAN_sendMessage 0x123 (bytes txData) 8 s of
                Inl f \<Rightarrow> Inl f
              | Inr s \<Rightarrow>
                  let s = Test_delay TEST_DELAY_LOOPS s in
                  (case CAN_getStats (Some statsAfter0) s of
                     (r, p, s) \<Rightarrow>
                       let statsAfter = pointee p statsAfter0 in
                       if messagesTransmitted statsAfter > messagesTransmitted statsBeforeTx
                       then Inr (TEST_PASS, s)
                       else Inr (TEST_FAIL, s))))"

definition Test_CAN_ReceiveMessage ::
  "CAN_Message_t \<Rightarrow> CAN_Stats_t \<Rightarrow> CAN_Stats_t \<Rightarrow> driver_state \<Rightarrow> u8 \<times> driver_state" where
  "Test_CAN_ReceiveMessage rxMsg0 statsBeforeRx0 statsAfter0 s0 =
     (case CAN_getStats (Some statsBeforeRx0) s0 of
        (r, p, s) \<Rightarrow>
          let statsBeforeRx = pointee p statsBeforeRx0 in
          (case poll_loop TEST_TIMEOUT_LOOPS rxMsg0 s of
             (timeout, rxMsg, s) \<Rightarrow>
               (case CAN_getStats (Some statsAfter0) s of
                  (r, p, s) \<Rightarrow>
                    let statsAfter = pointee p statsAfter0 in
                    if timeout > 0 \<and>
                       messagesReceived statsAfter > messagesReceived statsBeforeRx
                    then (if msg_dlc rxMsg > 0 \<and> msg_dlc rxMsg \<le> 8 then (TEST_PASS, s)
                          else (TEST_FAIL, s))
                    else (TEST_FAIL, s))))"

text \<open>The comparison loop of the data-integrity test leaves at the first mismatch.\<close>

function compare_loop :: "nat \<Rightarrow> byte8 \<Rightarrow> byte8 \<Rightarrow> u8 \<Rightarrow> u8" where
  "compare_loop idx rx txData dataMatches =
     (if idx < 8 then
        (if rd8 rx idx \<noteq> rd8 txData idx then 0
         else compare_loop (Suc idx) rx txData dataMatches)
      else dataMatches)"
  by pat_completeness auto
termination
  by (relation "measure (\<lambda>(idx, rx, txData, dataMatches). 8 - idx)") auto

declare compare_loop.simps [simp del]

definition Test_CAN_DataIntegrity ::
  "CAN_Message_t \<Rightarrow> driver_state \<Rightarrow> fault + (u8 \<times> driver_state)" where
  "Test_CAN_DataIntegrity rxMsg0 s0 =
     (let txData = array8 [0x01, 0x02, 0x03, 0x04, 0x05, 0x06, 0x07, 0x08]
      in case CAN_sendMessage 0x456 (bytes txData) 8 s0 of
           Inl f \<Rightarrow> Inl f
         | Inr s \<Rightarrow>
             let s = Test_delay TEST_DELAY_LOOPS s in
             (case poll_loop TEST_TIMEOUT_LOOPS rxMsg0 s of
                (timeout, rxMsg, s) \<Rightarrow>
                  if timeout = 0 then Inr (TEST_FAIL, s)
                  else if msg_dlc rxMsg \<noteq> 8 then Inr (TEST_FAIL, s)
                  else
                    (let dataMatches = compare_loop 0 (msg_data rxMsg) txData 1
                     in Inr (if dataMatches \<noteq> 0 then TEST_PASS else TEST_FAIL, s))))"

function seq_loop :: "nat \<Rightarrow> byte8 \<Rightarrow> driver_state \<Rightarrow> fault + (byte8 \<times> driver_state)" where
  "seq_loop idx txData0 s =
     (if idx < 5 then
        (let txData = wr8 txData0 0 (ucast ((of_nat idx :: u32) AND 0xFF));
             txData = wr8 txData 1 (ucast (drop_bit 8 (of_nat idx :: u32) AND 0xFF));
             txData = wr8 txData 2 0xAA;
             txData = wr8 txData 3 0xBB;
             txData = wr8 txData 4 0xCC;
             txData = wr8 txData 5 0xDD;
             txData = wr8 txData 6 0xEE;
             txData = wr8 txData 7 0xFF
         in case CAN_sendMessage (0x789 + of_nat idx) (bytes txData) 8 s of
              Inl f \<Rightarrow> Inl f
            | Inr s' \<Rightarrow> seq_loop (Suc idx) txData (Test_delay (TEST_DELAY_LOOPS div 5) s'))
      else Inr (txData0, s))"
  by pat_completeness auto
termination
  by (relation "measure (\<lambda>(idx, txData0, s). 5 - idx)") auto

declare seq_loop.simps [simp del]

definition Test_CAN_SequentialMessages ::
  "byte8 \<Rightarrow> CAN_Stats_t \<Rightarrow> CAN_Stats_t \<Rightarrow> driver_state \<Rightarrow> fault + (u8 \<times> driver_state)" where
  "Test_CAN_SequentialMessages txData0 statsBefore0 statsAfter0 s0 =
     (case CAN_getStats (Some statsBefore0) s0 of
        (r, p, s) \<Rightarrow>
          let statsBefore = pointee p statsBefore0 in
          (case seq_loop 0 txData0 s of
             Inl f \<Rightarrow> Inl f
           | Inr (txData, s) \<Rightarrow>
               let s = Test_delay TEST_DELAY_LOOPS s in
               (case CAN_getStats (Some statsAfter0) s of
                  (r, p, s) \<Rightarrow>
                    let statsAfter = pointee p statsAfter0 in
                    if messagesTransmitted statsAfter - messagesTransmitted statsBefore \<ge> 5
                    then Inr (TEST_PASS, s)
                    else Inr (TEST_FAIL, s))))"

definition Test_CAN_ErrorHandling :: "CAN_Stats_t \<Rightarrow> driver_state \<Rightarrow> u8 \<times> driver_state" where
  "Test_CAN_ErrorHandling stats0 s0 =
     (case CAN_getStats (Some stats0) s0 of
        (r, p, s) \<Rightarrow>
          let stats = pointee p stats0 in
          if errorCount stats = 0 then (TEST_PASS, s) else (TEST_FAIL, s))"

subsection \<open>CAN\_runUnitTests\<close>

text \<open>What the stack holds where the tests' uninitialised locals are placed.\<close>

record stack =
  stack_stats :: CAN_Stats_t
  stack_stats2 :: CAN_Stats_t
  stack_msg :: CAN_Message_t
  stack_bytes :: byte8

text \<open>
  Each test is followed by
  \<^verbatim>\<open>if(... == TEST_PASS) Test_printResult(TEST_PASS); else Test_printResult(TEST_FAIL);\<close>
  and a delay.
\<close>

definition tally :: "u8 \<Rightarrow> u32 \<Rightarrow> harness_state \<Rightarrow> harness_state" where
  "tally result loops h =
     on_drv (Test_delay loops)
       (if result = TEST_PASS then Test_printResult TEST_PASS h
        else Test_printResult TEST_FAIL h)"

text \<open>The function up to its endless loop: the six tests, then both indicators off.\<close>

definition six_tests :: "stack \<Rightarrow> harness_state \<Rightarrow> fault + harness_state" where
  "six_tests k h0 =
     (let h = on_drv Test_initStatusLEDs h0;
          h = on_drv (Test_delay 500000) h
      in case Test_CAN_BasicInitialization (stack_stats k) (drv h) of
         (r1, s) \<Rightarrow>
           let h = tally r1 TEST_DELAY_LOOPS (h\<lparr>drv := s\<rparr>) in
           (case Test_CAN_TransmitMessage (stack_stats k) (stack_stats2 k) (drv h) of
              Inl f \<Rightarrow> Inl f
            | Inr (r2, s) \<Rightarrow>
                let h = tally r2 TEST_DELAY_LOOPS (h\<lparr>drv := s\<rparr>) in
                (case Test_CAN_ReceiveMessage (stack_msg k) (stack_stats k) (stack_stats2 k)
                        (drv h) of
                   (r3, s) \<Rightarrow>
                     let h = tally r3 TEST_DELAY_LOOPS (h\<lparr>drv := s\<rparr>) in
                     (case Test_CAN_DataIntegrity (stack_msg k) (drv h) of
                        Inl f \<Rightarrow> Inl f
                      | Inr (r4, s) \<Rightarrow>
                          let h = tally r4 TEST_DELAY_LOOPS (h\<lparr>drv := s\<rparr>) in
                          (case Test_CAN_SequentialMessages (stack_bytes k) (stack_stats k)
                                  (stack_stats2 k) (drv h) of
                             Inl f \<Rightarrow> Inl f
                           | Inr (r5, s) \<Rightarrow>
                               let h = tally r5 TEST_DELAY_LOOPS (h\<lparr>drv := s\<rparr>) in
                               (case Test_CAN_ErrorHandling (stack_stats k) (drv h) of
                                  (r6, s) \<Rightarrow>
                                    let h = tally r6 (TEST_DELAY_LOOPS * 2) (h\<lparr>drv := s\<rparr>);
                                        h = on_drv (call (Call_GPIO_writePin
                                               DEVICE_GPIO_PIN_LED1 0)) h;
                                        h = on_drv (call (Call_GPIO_writePin
                                               DEVICE_GPIO_PIN_LED2 0)) h
                                    in Inr h))))))"

text \<open>One pulse of an indicator: toggle, wait, toggle, wait.\<close>

definition pulse :: "gpio_pin \<Rightarrow> driver_state \<Rightarrow> driver_state" where
  "pulse pin s0 =
     (let s = call (Call_GPIO_togglePin pin) s0;
          s = Test_delay 200000 s;
          s = call (Call_GPIO_togglePin pin) s
      in Test_delay 200000 s)"

text \<open>
  The two \<^verbatim>\<open>for\<close> loops of the reporting loop. The counter stays below a tally, which
  is below \<open>2 ^ 32\<close>, so it is a natural number.
\<close>

function blink_passed :: "nat \<Rightarrow> harness_state \<Rightarrow> harness_state" where
  "blink_passed idx h =
     (if idx < unat (passedTests (testStats h))
      then blink_passed (Suc idx) (on_drv (pulse DEVICE_GPIO_PIN_LED1) h)
      else h)"
  by pat_completeness auto
termination
  by (relation "measure (\<lambda>(idx, h). unat (passedTests (testStats h)) - idx)")
    (auto simp: on_drv_def)

function blink_failed :: "nat \<Rightarrow> harness_state \<Rightarrow> harness_state" where
  "blink_failed idx h =
     (if idx < unat (failedTests (testStats h))
      then blink_failed (Suc idx) (on_drv (pulse DEVICE_GPIO_PIN_LED2) h)
      else h)"
  by pat_completeness auto
termination
  by (relation "measure (\<lambda>(idx, h). unat (failedTests (testStats h)) - idx)")
    (auto simp: on_drv_def)

declare blink_passed.simps [simp del] blink_failed.simps [simp del]

text \<open>The body of \<^verbatim>\<open>while(1)\<close>, without the increment of the local counter.\<close>

definition report_iteration :: "harness_state \<Rightarrow> harness_state" where
  "report_iteration h0 =
     (let h = blink_passed 0 h0;
          h = on_drv (Test_delay 500000) h;
          h = blink_failed 0 h
      in on_drv (Test_delay 1000000) h)"

text \<open>
  The endless loop. A function that returns has a value \<open>Some\<close>; \<open>None\<close> is a call that
  never returns.
\<close>

partial_function (option) report_loop :: "u32 \<Rightarrow> harness_state \<Rightarrow> unit option" where
  "report_loop counter h = report_loop (counter + 1) (report_iteration h)"

definition CAN_runUnitTests :: "stack \<Rightarrow> harness_state \<Rightarrow> (fault + unit) option" where
  "CAN_runUnitTests k h0 =
     (case six_tests k h0 of
        Inl f \<Rightarrow> Some (Inl f)
      | Inr h \<Rightarrow> map_option Inr (report_loop 0 h))"

text \<open>
  The state in which \<^verbatim>\<open>main\<close> calls the harness: the static initialisers, and the
  calls of \<open>main_init\<close> made.
\<close>

definition harness_boot :: harness_state where
  "harness_boot = \<lparr>drv = main_init boot_state, testStats = testStats_init\<rparr>"

text \<open>The calls of one pulse.\<close>

definition pulse_calls :: "gpio_pin \<Rightarrow> event list" where
  "pulse_calls pin = trace (pulse pin boot_state)"

text \<open>The state after fuel-many rounds of the endless loop.\<close>

fun report_rounds :: "nat \<Rightarrow> harness_state \<Rightarrow> harness_state" where
  "report_rounds 0 h = h"
| "report_rounds (Suc n) h = report_rounds n (report_iteration h)"

section \<open>The configuration of the bus module\<close>

text \<open>
  What initialisation sets up, as the spec lists it: the module's clock gate and the
  routing of its two bus lines, a fixed bit rate, slots at fixed identifiers (a slot is a
  channel configured for transmit or receive duty at one identifier), the module switched
  on, optionally the self-loopback mode, and the fault and completion notifications.
\<close>

record slot_config =
  slot_msg_id :: u32
  slot_frame :: frame_type
  slot_type :: obj_type
  slot_mask :: u32
  slot_flags :: obj_flags
  slot_len :: u32

record can_config =
  clock_gates :: "periph set"
  pin_routes :: "pin_config set"
  bit_rate :: "u32 option"
  slots :: "u32 \<rightharpoonup> slot_config"
  module_enabled :: bool
  test_modes :: "test_flag set"
  notifications :: "int_flag set"

text \<open>
  Modelled from the spec: the functions of the driver library that \<^verbatim>\<open>CAN_initModule\<close>
  calls (\<^verbatim>\<open>SysCtl_enablePeripheral\<close>, \<^verbatim>\<open>GPIO_setPinConfig\<close>, \<^verbatim>\<open>CAN_initRAM\<close>,
  \<^verbatim>\<open>CAN_setBitRate\<close>, \<^verbatim>\<open>CAN_setupMessageObject\<close>, \<^verbatim>\<open>CAN_enableModule\<close>,
  \<^verbatim>\<open>CAN_setTestMode\<close>, \<^verbatim>\<open>CAN_enableInterrupt\<close>) are not among the sources.
  \<open>configure\<close> gives each call the effect on the configuration that the spec's
  description of initialisation names: a setting is stored where it belongs, the
  configuration written to a slot replaces what the slot held, enables are added to those
  in force. The spec names no configuration effect of the RAM initialisation, and the calls
  of the GPIO layer, the bus transmissions and the delays are no part of the module's
  configuration.
\<close>

fun configure :: "event \<Rightarrow> can_config \<Rightarrow> can_config" where
  "configure (Call_SysCtl_enablePeripheral p) c = c\<lparr>clock_gates := insert p (clock_gates c)\<rparr>"
| "configure (Call_GPIO_setPinConfig p) c = c\<lparr>pin_routes := insert p (pin_routes c)\<rparr>"
| "configure (Call_CAN_setBitRate b clk rate) c = c\<lparr>bit_rate := Some rate\<rparr>"
| "configure (Call_CAN_setupMessageObject b obj msgId frame ty idMask flags len) c =
     c\<lparr>slots := (slots c)(obj \<mapsto>
          \<lparr>slot_msg_id = msgId, slot_frame = frame, slot_type = ty, slot_mask = idMask,
           slot_flags = flags, slot_len = len\<rparr>)\<rparr>"
| "configure (Call_CAN_enableModule b) c = c\<lparr>module_enabled := True\<rparr>"
| "configure (Call_CAN_setTestMode b modes) c = c\<lparr>test_modes := test_modes c \<union> modes\<rparr>"
| "configure (Call_CAN_enableInterrupt b flags) c =
     c\<lparr>notifications := notifications c \<union> flags\<rparr>"
| "configure _ c = c"

fun configured :: "event list \<Rightarrow> can_config \<Rightarrow> can_config" where
  "configured [] c = c"
| "configured (e # es) c = configured es (configure e c)"

text \<open>The module before any call: nothing enabled, no slot configured.\<close>

definition unconfigured :: can_config where
  "unconfigured =
     \<lparr>clock_gates = {}, pin_routes = {}, bit_rate = None, slots = Map.empty,
      module_enabled = False, test_modes = {}, notifications = {}\<rparr>"

text \<open>The calls one run of the initialisation routine makes.\<close>

definition init_calls :: "event list" where
  "init_calls = trace (CAN_initModule boot_state)"

section \<open>Properties\<close>

subsection \<open>Arrays and loops\<close>

lemma length_Rep_byte8 [simp]: "length (Rep_byte8 a) = 8"
  using Rep_byte8 [of a] by simp

lemma Rep_wr8 [simp]: "Rep_byte8 (wr8 a i v) = (Rep_byte8 a)[i := v]"
  by (simp add: wr8_def Abs_byte8_inverse)

lemma Rep_array8 [simp]: "Rep_byte8 (array8 xs) = take 8 (xs @ replicate 8 0)"
  by (simp add: array8_def Abs_byte8_inverse)

lemma Rep_copy8:
  "idx \<le> 8 \<Longrightarrow> Rep_byte8 (copy8 idx src dst) = take idx (Rep_byte8 dst) @ drop idx (Rep_byte8 src)"
proof (induction idx src dst rule: copy8.induct)
  case (1 idx src dst)
  show ?case
  proof (cases "idx < 8")
    case True
    then have "Rep_byte8 (copy8 idx src dst) = Rep_byte8 (copy8 (Suc idx) src (wr8 dst idx (rd8 src idx)))"
      by (subst copy8.simps) simp
    also have "\<dots> = take (Suc idx) ((Rep_byte8 dst)[idx := Rep_byte8 src ! idx]) @ drop (Suc idx) (Rep_byte8 src)"
      using 1 True by (simp add: rd8_def)
    also have "\<dots> = take idx (Rep_byte8 dst) @ drop idx (Rep_byte8 src)"
      using True by (simp add: take_Suc_conv_app_nth Cons_nth_drop_Suc)
    finally show ?thesis .
  next
    case False
    with 1 have "idx = 8" by simp
    then show ?thesis by (subst copy8.simps) simp
  qed
qed

lemma copy8_all [simp]: "copy8 0 src dst = src"
  using Rep_copy8 [of 0 src dst] by (simp add: Rep_byte8_inject)

lemma copy_loop_eq:
  "idx \<le> dlc \<Longrightarrow> dlc \<le> length data \<Longrightarrow> dlc \<le> length msgData \<Longrightarrow>
   copy_loop idx dlc data msgData =
     Inr (dlc, take idx msgData @ map Some (drop idx (take dlc data)) @ drop dlc msgData)"
proof (induction idx dlc data msgData rule: copy_loop.induct)
  case (1 idx dlc data msgData)
  show ?case
  proof (cases "idx < dlc")
    case True
    with 1 have "copy_loop idx dlc data msgData = copy_loop (Suc idx) dlc data (msgData[idx := Some (data ! idx)])"
      by (subst copy_loop.simps) simp
    also have "\<dots> = Inr (dlc, take (Suc idx) (msgData[idx := Some (data ! idx)]) @
        map Some (drop (Suc idx) (take dlc data)) @ drop dlc (msgData[idx := Some (data ! idx)]))"
      using 1 True by simp
    also have "\<dots> = Inr (dlc, take idx msgData @ map Some (drop idx (take dlc data)) @ drop dlc msgData)"
    proof -
      from True have d: "dlc - idx = Suc (dlc - Suc idx)" by simp
      show ?thesis using 1 True
        by (simp add: take_Suc_conv_app_nth Cons_nth_drop_Suc [symmetric] drop_take d)
    qed
    finally show ?thesis .
  next
    case False
    with 1 have "idx = dlc" by simp
    then show ?thesis by (subst copy_loop.simps) simp
  qed
qed

lemma pad_loop_eq:
  "idx \<le> 8 \<Longrightarrow> length msgData = 8 \<Longrightarrow>
   pad_loop idx msgData = Inr (take idx msgData @ replicate (8 - idx) (Some 0))"
proof (induction idx msgData rule: pad_loop.induct)
  case (1 idx msgData)
  show ?case
  proof (cases "idx < 8")
    case True
    with 1 have "pad_loop idx msgData = pad_loop (Suc idx) (msgData[idx := Some 0])"
      by (subst pad_loop.simps) simp
    also have "\<dots> = Inr (take (Suc idx) (msgData[idx := Some 0]) @ replicate (8 - Suc idx) (Some 0))"
      using 1 True by simp
    also have "\<dots> = Inr (take idx msgData @ replicate (8 - idx) (Some 0))"
    proof -
      from True have d: "8 - idx = Suc (8 - Suc idx)" by simp
      show ?thesis using 1 True
        by (simp add: take_Suc_conv_app_nth d)
    qed
    finally show ?thesis .
  next
    case False
    with 1 have "idx = 8" by simp
    then show ?thesis using 1 by (subst pad_loop.simps) simp
  qed
qed



subsection \<open>Initialisation calls, sending, error handler\<close>

lemma init_calls_eq:
  "init_calls =
     [Call_SysCtl_enablePeripheral SYSCTL_PERIPH_CLK_CANA,
      Call_GPIO_setPinConfig DEVICE_GPIO_CFG_CANTXA,
      Call_GPIO_setPinConfig DEVICE_GPIO_CFG_CANRXA,
      Call_CAN_initRAM CANA_BASE,
      Call_CAN_setBitRate CANA_BASE DEVICE_SYSCLK_FREQ 500000,
      Call_CAN_setupMessageObject CANA_BASE 1 0x123 CAN_MSG_FRAME_STD CAN_MSG_OBJ_TYPE_TX 0
        CAN_MSG_OBJ_NO_FLAGS 8,
      Call_CAN_setupMessageObject CANA_BASE 2 0x456 CAN_MSG_FRAME_STD CAN_MSG_OBJ_TYPE_RX 0
        CAN_MSG_OBJ_RX_INT_ENABLE 8,
      Call_CAN_enableModule CANA_BASE,
      Call_CAN_enableInterrupt CANA_BASE {CAN_INT_IE0, CAN_INT_ERROR, CAN_INT_STATUS}]"
  by (simp add: init_calls_def CAN_initModule_def call_def boot_state_def CAN_MODULE_def
      CAN_BITRATE_KBPS_def CAN_USE_LOOPBACK_def CAN_TX_MSG_ID_def CAN_RX_MSG_ID_def
      CAN_TX_MSG_OBJ_def CAN_RX_MSG_OBJ_def)

lemma CAN_initModule_eq: "CAN_initModule s = s\<lparr>trace := trace s @ init_calls\<rparr>"
  by (simp add: init_calls_def CAN_initModule_def call_def boot_state_def CAN_USE_LOOPBACK_def)

lemma CAN_sendMessage_eq:
  assumes "min (unat dlc) 8 \<le> length data"
  shows "CAN_sendMessage msgId data dlc s =
           Inr (s\<lparr>trace := trace s @
                    [Call_CAN_sendMessage CAN_MODULE CAN_TX_MSG_OBJ (if 8 < dlc then 8 else dlc)
                       (map Some (take (min (unat dlc) 8) data) @
                        replicate (8 - min (unat dlc) 8) (Some 0))],
                  canStats := (canStats s)
                    \<lparr>messagesTransmitted := messagesTransmitted (canStats s) + 1\<rparr>\<rparr>)"
proof -
  define n where "n = min (unat dlc) 8"
  have n: "unat (if 8 < dlc then 8 else dlc) = n"
    by (auto simp: n_def word_less_nat_alt min_def)
  have n8: "n \<le> 8" by (simp add: n_def)
  from assms have len: "n \<le> length data" by (simp add: n_def)
  have c: "copy_loop 0 n data (replicate 8 None) =
             Inr (n, map Some (take n data) @ replicate (8 - n) None)"
    using len n8 by (simp add: copy_loop_eq)
  have p: "pad_loop n (map Some (take n data) @ replicate (8 - n) None) =
             Inr (map Some (take n data) @ replicate (8 - n) (Some 0))"
    using len n8 by (simp add: pad_loop_eq)
  have "CAN_sendMessage msgId data dlc s =
           Inr (s\<lparr>trace := trace s @
                    [Call_CAN_sendMessage CAN_MODULE CAN_TX_MSG_OBJ (if 8 < dlc then 8 else dlc)
                       (map Some (take n data) @ replicate (8 - n) (Some 0))],
                  canStats := (canStats s)
                    \<lparr>messagesTransmitted := messagesTransmitted (canStats s) + 1\<rparr>\<rparr>)"
    unfolding CAN_sendMessage_def Let_def n c by (simp add: p call_def)
  then show ?thesis by (simp add: n_def)
qed

lemma CAN_sendMessage_Inr:
  assumes "CAN_sendMessage msgId data dlc s = Inr s'"
  shows "canStats s' = (canStats s)\<lparr>messagesTransmitted := messagesTransmitted (canStats s) + 1\<rparr>
         \<and> messageReceived s' = messageReceived s \<and> lastRxMessage s' = lastRxMessage s"
  using assms
  by (auto simp: CAN_sendMessage_def Let_def call_def split: sum.splits if_splits)

lemma CAN_errorHandler_eq:
  "CAN_errorHandler es errorStatus s =
     s\<lparr>canStats := (canStats s)
          \<lparr>errorCount := errorCount (canStats s) + 1, lastErrorCode := errorStatus\<rparr>,
       trace := trace s @ [Call_GPIO_writePin ERROR_LED_PIN 1] @
                (if errorStatus AND CAN_ES_BUSOFF es \<noteq> 0 then init_calls else [])\<rparr>"
  by (simp add: CAN_errorHandler_def CAN_setLED_def call_def CAN_initModule_eq)

subsection \<open>The contract of the driver functions\<close>

text \<open>
  Claim C1. When the caller's buffer holds the bytes the clamped length asks for,
  \<^verbatim>\<open>CAN_sendMessage\<close> hands the bus layer the length 8 if \<open>dlc\<close> is above 8 and \<open>dlc\<close>
  otherwise, with a frame of eight written cells: the caller's bytes at the indices below
  the clamped length, zero at every index from there on. The call on the buffer cut after
  the clamped length, where any further read would be out of bounds, does the same: the
  bytes beyond (index 8 and beyond when \<open>dlc\<close> is above 8) are never read and never
  matter.
\<close>

theorem send_clamps_and_zero_pads:
  assumes "min (unat dlc) 8 \<le> length data"
  shows "CAN_sendMessage msgId data dlc s =
           Inr (s\<lparr>trace := trace s @
                    [Call_CAN_sendMessage CAN_MODULE CAN_TX_MSG_OBJ (if 8 < dlc then 8 else dlc)
                       (map Some (take (min (unat dlc) 8) data) @
                        replicate (8 - min (unat dlc) 8) (Some 0))],
                  canStats := (canStats s)
                    \<lparr>messagesTransmitted := messagesTransmitted (canStats s) + 1\<rparr>\<rparr>)
         \<and> CAN_sendMessage msgId (take (min (unat dlc) 8) data) dlc s =
             CAN_sendMessage msgId data dlc s"
proof -
  have "min (unat dlc) 8 \<le> length (take (min (unat dlc) 8) data)"
    using assms by simp
  then show ?thesis
    using CAN_sendMessage_eq [OF assms, of msgId s]
      CAN_sendMessage_eq [of dlc "take (min (unat dlc) 8) data" msgId s]
    by simp
qed

theorem send_clamps_and_zero_pads_witness:
  "min (unat (200 :: u8)) 8 \<le> length [1, 2, 3, 4, 5, 6, 7, 8, 9, 10 :: u8]
   \<and> CAN_sendMessage 0x123 [1, 2, 3, 4, 5, 6, 7, 8, 9, 10] 200 boot_state =
       Inr (boot_state\<lparr>trace := [Call_CAN_sendMessage CANA_BASE 1 8
              [Some 1, Some 2, Some 3, Some 4, Some 5, Some 6, Some 7, Some 8]],
            canStats := (canStats boot_state)\<lparr>messagesTransmitted := 1\<rparr>\<rparr>)
   \<and> min (unat (3 :: u8)) 8 \<le> length [0xAA, 0xBB, 0xCC, 0xDD, 0xEE :: u8]
   \<and> CAN_sendMessage 0x123 [0xAA, 0xBB, 0xCC, 0xDD, 0xEE] 3 boot_state =
       Inr (boot_state\<lparr>trace := [Call_CAN_sendMessage CANA_BASE 1 3
              [Some 0xAA, Some 0xBB, Some 0xCC, Some 0, Some 0, Some 0, Some 0, Some 0]],
            canStats := (canStats boot_state)\<lparr>messagesTransmitted := 1\<rparr>\<rparr>)"
proof -
  have h1: "min (unat (200 :: u8)) 8 \<le> length [1, 2, 3, 4, 5, 6, 7, 8, 9, 10 :: u8]"
    by simp
  have h2: "min (unat (3 :: u8)) 8 \<le> length [0xAA, 0xBB, 0xCC, 0xDD, 0xEE :: u8]"
    by simp
  have r: "replicate 5 (Some (0 :: u8)) = [Some 0, Some 0, Some 0, Some 0, Some 0]"
    by (simp add: numeral_eq_Suc)
  show ?thesis
    using h1 h2 send_clamps_and_zero_pads [OF h1, of "0x123" boot_state]
      send_clamps_and_zero_pads [OF h2, of "0x123" boot_state]
    by (simp add: boot_state_def CAN_MODULE_def CAN_TX_MSG_OBJ_def r)
qed

text \<open>
  Claim C2. When the availability flag is set, \<^verbatim>\<open>CAN_receiveMessage\<close> returns 1, leaves
  the latched frame behind its parameter, clears the flag and adds one to the received
  counter, changing nothing else; a second call right after it returns 0 and changes
  nothing; the flag is 0 after the successful receive.
\<close>

theorem receive_consumes_latched_frame:
  assumes "messageReceived s \<noteq> 0"
  shows "CAN_receiveMessage out s =
           (1, lastRxMessage s,
            s\<lparr>messageReceived := 0,
              canStats := (canStats s)
                \<lparr>messagesReceived := messagesReceived (canStats s) + 1\<rparr>\<rparr>)
         \<and> CAN_receiveMessage out2 (snd (snd (CAN_receiveMessage out s))) =
             (0, out2, snd (snd (CAN_receiveMessage out s)))
         \<and> messageReceived (snd (snd (CAN_receiveMessage out s))) = 0"
  using assms by (simp add: CAN_receiveMessage_def)

theorem receive_consumes_latched_frame_witness:
  "messageReceived (boot_state\<lparr>messageReceived := 1,
      lastRxMessage := \<lparr>msg_id = 0x456, msg_dlc = 8,
        msg_data = array8 [1, 2, 3, 4, 5, 6, 7, 8], msg_timestamp = 7\<rparr>\<rparr>) \<noteq> 0
   \<and> CAN_receiveMessage
        \<lparr>msg_id = 0, msg_dlc = 0, msg_data = array8 [9, 9, 9], msg_timestamp = 0\<rparr>
        (boot_state\<lparr>messageReceived := 1,
           lastRxMessage := \<lparr>msg_id = 0x456, msg_dlc = 8,
             msg_data = array8 [1, 2, 3, 4, 5, 6, 7, 8], msg_timestamp = 7\<rparr>\<rparr>) =
       (1, \<lparr>msg_id = 0x456, msg_dlc = 8, msg_data = array8 [1, 2, 3, 4, 5, 6, 7, 8],
            msg_timestamp = 7\<rparr>,
        boot_state\<lparr>canStats := (canStats boot_state)\<lparr>messagesReceived := 1\<rparr>,
           lastRxMessage := \<lparr>msg_id = 0x456, msg_dlc = 8,
             msg_data = array8 [1, 2, 3, 4, 5, 6, 7, 8], msg_timestamp = 7\<rparr>\<rparr>)"
  using receive_consumes_latched_frame
    [of "boot_state\<lparr>messageReceived := 1,
           lastRxMessage := \<lparr>msg_id = 0x456, msg_dlc = 8,
             msg_data = array8 [1, 2, 3, 4, 5, 6, 7, 8], msg_timestamp = 7\<rparr>\<rparr>"
        "\<lparr>msg_id = 0, msg_dlc = 0, msg_data = array8 [9, 9, 9], msg_timestamp = 0\<rparr>"]
  by (simp add: boot_state_def)

text \<open>
  Claim C3. When the availability flag is 0, \<^verbatim>\<open>CAN_receiveMessage\<close> returns 0; what
  is behind its parameter (identifier, length, the eight data bytes, timestamp) and the
  whole state, the statistics with it, are as before.
\<close>

theorem receive_without_frame:
  assumes "messageReceived s = 0"
  shows "CAN_receiveMessage msg s = (0, msg, s)"
  using assms by (simp add: CAN_receiveMessage_def)

theorem receive_without_frame_witness:
  "messageReceived boot_state = 0
   \<and> CAN_receiveMessage
        \<lparr>msg_id = 5, msg_dlc = 2, msg_data = array8 [9, 9], msg_timestamp = 3\<rparr> boot_state =
       (0, \<lparr>msg_id = 5, msg_dlc = 2, msg_data = array8 [9, 9], msg_timestamp = 3\<rparr>,
        boot_state)"
  using receive_without_frame
    [of boot_state "\<lparr>msg_id = 5, msg_dlc = 2, msg_data = array8 [9, 9], msg_timestamp = 3\<rparr>"]
  by (simp add: boot_state_def)

text \<open>
  Claim C5. \<^verbatim>\<open>CAN_errorHandler\<close> adds one to the error counter, stores the bitmask as
  the last error code and writes 1 to the fault indicator; it then makes the calls of one
  run of \<^verbatim>\<open>CAN_initModule\<close> (nine calls) if the bitmask has a bit of the bus-off
  mask, and no further call if not. The sent and received counters keep their values.
\<close>

theorem errorHandler_effect:
  "CAN_errorHandler es errorStatus s =
     s\<lparr>canStats := (canStats s)
          \<lparr>errorCount := errorCount (canStats s) + 1, lastErrorCode := errorStatus\<rparr>,
       trace := trace s @ [Call_GPIO_writePin ERROR_LED_PIN 1] @
                (if errorStatus AND CAN_ES_BUSOFF es \<noteq> 0 then init_calls else [])\<rparr>
   \<and> trace (CAN_initModule s) = trace s @ init_calls
   \<and> length init_calls = 9
   \<and> messagesTransmitted (canStats (CAN_errorHandler es errorStatus s)) =
       messagesTransmitted (canStats s)
   \<and> messagesReceived (canStats (CAN_errorHandler es errorStatus s)) =
       messagesReceived (canStats s)"
  by (simp add: CAN_errorHandler_eq CAN_initModule_eq init_calls_eq)

text \<open>
  Claim C6. \<^verbatim>\<open>CAN_getStats\<close> with a null destination returns 0 and leaves the state as
  it is; with a destination it returns 1, the destination then holds the four statistics
  fields, and the state is as before.
\<close>

theorem getStats_contract:
  "CAN_getStats None s = (0, None, s)
   \<and> CAN_getStats (Some d) s = (1, Some (canStats s), s)"
  by (simp add: CAN_getStats_def)

subsection \<open>Initialisation twice\<close>

lemma configured_append: "configured (xs @ ys) c = configured ys (configured xs c)"
  by (induction xs arbitrary: c) simp_all

lemma configured_init_calls:
  "configured init_calls c =
     c\<lparr>clock_gates := insert SYSCTL_PERIPH_CLK_CANA (clock_gates c),
       pin_routes := insert DEVICE_GPIO_CFG_CANRXA (insert DEVICE_GPIO_CFG_CANTXA (pin_routes c)),
       bit_rate := Some 500000,
       slots := (slots c)
         (1 \<mapsto> \<lparr>slot_msg_id = 0x123, slot_frame = CAN_MSG_FRAME_STD,
                 slot_type = CAN_MSG_OBJ_TYPE_TX, slot_mask = 0,
                 slot_flags = CAN_MSG_OBJ_NO_FLAGS, slot_len = 8\<rparr>,
          2 \<mapsto> \<lparr>slot_msg_id = 0x456, slot_frame = CAN_MSG_FRAME_STD,
                 slot_type = CAN_MSG_OBJ_TYPE_RX, slot_mask = 0,
                 slot_flags = CAN_MSG_OBJ_RX_INT_ENABLE, slot_len = 8\<rparr>),
       module_enabled := True,
       notifications := notifications c \<union> {CAN_INT_IE0, CAN_INT_ERROR, CAN_INT_STATUS}\<rparr>"
  by (simp add: init_calls_eq)

text \<open>
  Claim C9. The configuration of the bus module after two runs of \<^verbatim>\<open>CAN_initModule\<close>
  is the configuration after one, whatever the calls made before and the configuration
  they started from. One run sets the bit rate 500000, configures slot 1 for transmission
  at 0x123 and slot 2 for reception at 0x456 and adds the three notifications; run
  twice on a module with no slot, exactly the slots 1 and 2 are configured. The error
  handler run after an initialisation, the case of a bus-off fault among them, leaves the
  configuration of that initialisation. The driver's own variables are not touched.
\<close>

theorem initModule_idempotent:
  "configured (trace (CAN_initModule (CAN_initModule s))) c =
     configured (trace (CAN_initModule s)) c
   \<and> configured (trace (CAN_initModule boot_state)) c =
     c\<lparr>clock_gates := insert SYSCTL_PERIPH_CLK_CANA (clock_gates c),
       pin_routes := insert DEVICE_GPIO_CFG_CANRXA (insert DEVICE_GPIO_CFG_CANTXA (pin_routes c)),
       bit_rate := Some 500000,
       slots := (slots c)
         (1 \<mapsto> \<lparr>slot_msg_id = 0x123, slot_frame = CAN_MSG_FRAME_STD,
                 slot_type = CAN_MSG_OBJ_TYPE_TX, slot_mask = 0,
                 slot_flags = CAN_MSG_OBJ_NO_FLAGS, slot_len = 8\<rparr>,
          2 \<mapsto> \<lparr>slot_msg_id = 0x456, slot_frame = CAN_MSG_FRAME_STD,
                 slot_type = CAN_MSG_OBJ_TYPE_RX, slot_mask = 0,
                 slot_flags = CAN_MSG_OBJ_RX_INT_ENABLE, slot_len = 8\<rparr>),
       module_enabled := True,
       notifications := notifications c \<union> {CAN_INT_IE0, CAN_INT_ERROR, CAN_INT_STATUS}\<rparr>
   \<and> dom (slots (configured (trace (CAN_initModule (CAN_initModule boot_state))) unconfigured))
       = {1, 2}
   \<and> configured (trace (CAN_errorHandler es errorStatus (CAN_initModule s))) c =
       configured (trace (CAN_initModule s)) c
   \<and> canStats (CAN_initModule s) = canStats s
   \<and> lastRxMessage (CAN_initModule s) = lastRxMessage s
   \<and> messageReceived (CAN_initModule s) = messageReceived s"
proof -
  have twice: "configured init_calls (configured init_calls d) = configured init_calls d" for d
    unfolding configured_init_calls by (simp add: insert_commute Un_assoc)
  have a: "configured (trace (CAN_initModule (CAN_initModule s))) c =
             configured (trace (CAN_initModule s)) c"
    by (simp add: CAN_initModule_eq configured_append twice)
  have b: "trace (CAN_initModule boot_state) = init_calls"
    by (simp add: init_calls_def)
  have d: "dom (slots (configured (trace (CAN_initModule (CAN_initModule boot_state)))
             unconfigured)) = {1, 2}"
    by (simp add: CAN_initModule_eq configured_append twice configured_init_calls
        boot_state_def unconfigured_def insert_commute)
  have e: "configured (trace (CAN_errorHandler es errorStatus (CAN_initModule s))) c =
             configured (trace (CAN_initModule s)) c"
    by (simp add: CAN_errorHandler_eq CAN_initModule_eq configured_append twice)
  have v: "canStats (CAN_initModule s) = canStats s"
    "lastRxMessage (CAN_initModule s) = lastRxMessage s"
    "messageReceived (CAN_initModule s) = messageReceived s"
    by (simp_all add: CAN_initModule_eq)
  show ?thesis
    using a d e v unfolding b configured_init_calls by simp
qed


subsection \<open>The availability flag\<close>

lemma word_zero_or_pos: "(t :: u32) = 0 \<or> 0 < t"
  by (simp add: word_greater_zero_iff)

lemma poll_loop_idle:
  "messageReceived s = 0 \<Longrightarrow> poll_loop timeout rxMsg s = (0, rxMsg, s)"
proof (induction timeout rxMsg s rule: poll_loop.induct)
  case (1 timeout rxMsg s)
  have rc: "CAN_receiveMessage rxMsg s = (0, rxMsg, s)"
    using "1.prems" by (simp add: CAN_receiveMessage_def)
  show ?case
  proof (cases "0 < timeout")
    case True
    then have "poll_loop timeout rxMsg s = poll_loop (timeout - 1) rxMsg s"
      by (subst poll_loop.simps) (simp add: rc)
    also have "\<dots> = (0, rxMsg, s)"
      using "1.IH" True rc "1.prems" by simp
    finally show ?thesis .
  next
    case False
    then have "timeout = 0" using word_zero_or_pos [of timeout] by simp
    then show ?thesis by (subst poll_loop.simps) simp
  qed
qed

lemma poll_loop_latched:
  assumes "messageReceived s \<noteq> 0" and "0 < timeout"
  shows "poll_loop timeout rxMsg s =
           (timeout, lastRxMessage s,
            s\<lparr>messageReceived := 0,
              canStats := (canStats s)
                \<lparr>messagesReceived := messagesReceived (canStats s) + 1\<rparr>\<rparr>)"
  using assms by (subst poll_loop.simps) (simp add: CAN_receiveMessage_def)

lemma CAN_testLoopback_Inr:
  assumes "CAN_testLoopback s = Inr s'"
  shows "(messageReceived s' = messageReceived s \<or> messageReceived s' = 0)
         \<and> messagesReceived (canStats s') = messagesReceived (canStats s)"
  using assms
  by (auto simp: CAN_testLoopback_def Let_def bump_errorCount_def
      dest!: CAN_sendMessage_Inr split: sum.splits if_splits)

lemma CAN_testReceive_flag:
  "messageReceived (CAN_testReceive rxMsg0 s) = messageReceived s
   \<or> messageReceived (CAN_testReceive rxMsg0 s) = 0"
proof (cases "messageReceived s = 0")
  case True
  then show ?thesis
    by (simp add: CAN_testReceive_def poll_loop_idle bump_errorCount_def)
next
  case False
  then show ?thesis
    by (simp add: CAN_testReceive_def poll_loop_latched bump_errorCount_def)
qed

lemma CAN_testReceive_idle:
  "messageReceived s = 0 \<Longrightarrow>
   messagesReceived (canStats (CAN_testReceive rxMsg0 s)) = messagesReceived (canStats s)"
  by (simp add: CAN_testReceive_def poll_loop_idle bump_errorCount_def)

lemma exec_flag:
  assumes "exec es rut op s = Inr s'"
  shows "messageReceived s' = messageReceived s \<or> messageReceived s' = 0"
proof (cases op)
  case (Op_testReceive rxMsg0)
  then show ?thesis using assms CAN_testReceive_flag [of rxMsg0 s] by auto
next
  case Op_testLoopback
  then show ?thesis using assms CAN_testLoopback_Inr [of s s'] by simp
qed (use assms in \<open>auto simp: CAN_initModule_eq CAN_receiveMessage_def CAN_processMessage_def
      CAN_errorHandler_eq CAN_setLED_def CAN_toggleLED_def call_def CAN_getStats_def
      CAN_runUnitTests_comm_tests_def CAN_testTransmit_def Let_def
      dest!: CAN_sendMessage_Inr split: sum.splits if_splits option.splits\<close>)

lemma exec_idle:
  assumes "exec es rut op s = Inr s'"
    and "messageReceived s = 0" and "messagesReceived (canStats s) = 0"
  shows "messagesReceived (canStats s') = 0"
proof (cases op)
  case (Op_testReceive rxMsg0)
  then show ?thesis using assms CAN_testReceive_idle [of s rxMsg0] by auto
next
  case Op_testLoopback
  then show ?thesis using assms CAN_testLoopback_Inr [of s s'] by simp
qed (use assms in \<open>auto simp: CAN_initModule_eq CAN_receiveMessage_def CAN_processMessage_def
      CAN_errorHandler_eq CAN_setLED_def CAN_toggleLED_def call_def CAN_getStats_def
      CAN_runUnitTests_comm_tests_def CAN_testTransmit_def Let_def
      dest!: CAN_sendMessage_Inr split: sum.splits if_splits option.splits\<close>)

lemma run_flag:
  "run es rut ops s = Inr s' \<Longrightarrow>
   messageReceived s' = messageReceived s \<or> messageReceived s' = 0"
proof (induction ops arbitrary: s)
  case Nil
  then show ?case by simp
next
  case (Cons op ops)
  then obtain s1 where e: "exec es rut op s = Inr s1" and r: "run es rut ops s1 = Inr s'"
    by (auto split: sum.splits)
  from exec_flag [OF e] Cons.IH [OF r] show ?case by auto
qed

lemma run_idle:
  "run es rut ops s = Inr s' \<Longrightarrow> messageReceived s = 0 \<Longrightarrow>
   messagesReceived (canStats s) = 0 \<Longrightarrow>
   messageReceived s' = 0 \<and> messagesReceived (canStats s') = 0"
proof (induction ops arbitrary: s)
  case Nil
  then show ?case by simp
next
  case (Cons op ops)
  then obtain s1 where e: "exec es rut op s = Inr s1" and r: "run es rut ops s1 = Inr s'"
    by (auto split: sum.splits)
  from exec_flag [OF e] Cons.prems have "messageReceived s1 = 0" by auto
  moreover from exec_idle [OF e] Cons.prems have "messagesReceived (canStats s1) = 0" by simp
  ultimately show ?case using Cons.IH [OF r] by simp
qed

text \<open>
  Claim C7. The availability flag starts at 0, and after any sequence of calls of the
  functions of can\_communication.c it has the value it had before the sequence, or 0.
  So from the start of the program, with nothing outside the program raising the flag,
  after any sequence of calls the flag is 0, the received counter is 0, and a call of
  \<^verbatim>\<open>CAN_receiveMessage\<close> returns 0.
\<close>

theorem flag_never_raised:
  "messageReceived boot_state = 0
   \<and> (\<forall>t t'. run es rut ops t = Inr t' \<longrightarrow>
         messageReceived t' = messageReceived t \<or> messageReceived t' = 0)
   \<and> (\<forall>s. run es rut ops boot_state = Inr s \<longrightarrow>
         messageReceived s = 0 \<and> messagesReceived (canStats s) = 0
         \<and> (\<forall>msg. CAN_receiveMessage msg s = (0, msg, s)))"
proof -
  have b: "messageReceived boot_state = 0" "messagesReceived (canStats boot_state) = 0"
    by (simp_all add: boot_state_def)
  have "messageReceived s = 0 \<and> messagesReceived (canStats s) = 0
        \<and> (\<forall>msg. CAN_receiveMessage msg s = (0, msg, s))"
    if "run es rut ops boot_state = Inr s" for s
    using run_idle [OF that b] by (simp add: CAN_receiveMessage_def)
  then show ?thesis using b(1) run_flag by blast
qed

theorem flag_never_raised_witness:
  "run \<lparr>CAN_ES_TXWARN = 1, CAN_ES_RXWARN = 2, CAN_ES_TXERRPASSED = 4,
         CAN_ES_RXERRPASSED = 8, CAN_ES_BUSOFF = 0x80\<rparr> True
     [Op_sendMessage 0x123 [1, 2, 3, 4, 5, 6, 7, 8] 8,
      Op_receiveMessage \<lparr>msg_id = 0, msg_dlc = 0, msg_data = array8 [0], msg_timestamp = 0\<rparr>,
      Op_testReceive \<lparr>msg_id = 0, msg_dlc = 0, msg_data = array8 [0], msg_timestamp = 0\<rparr>]
     boot_state =
   Inr (boot_state\<lparr>trace := [Call_CAN_sendMessage CANA_BASE 1 8
          [Some 1, Some 2, Some 3, Some 4, Some 5, Some 6, Some 7, Some 8]],
        canStats := (canStats boot_state)\<lparr>messagesTransmitted := 1, errorCount := 1\<rparr>\<rparr>)
   \<and> messageReceived (boot_state\<lparr>trace := [Call_CAN_sendMessage CANA_BASE 1 8
          [Some 1, Some 2, Some 3, Some 4, Some 5, Some 6, Some 7, Some 8]],
        canStats := (canStats boot_state)\<lparr>messagesTransmitted := 1, errorCount := 1\<rparr>\<rparr>) = 0
   \<and> messagesReceived (canStats (boot_state\<lparr>trace := [Call_CAN_sendMessage CANA_BASE 1 8
          [Some 1, Some 2, Some 3, Some 4, Some 5, Some 6, Some 7, Some 8]],
        canStats := (canStats boot_state)\<lparr>messagesTransmitted := 1, errorCount := 1\<rparr>\<rparr>)) = 0"
proof -
  have r: "run \<lparr>CAN_ES_TXWARN = 1, CAN_ES_RXWARN = 2, CAN_ES_TXERRPASSED = 4,
         CAN_ES_RXERRPASSED = 8, CAN_ES_BUSOFF = 0x80\<rparr> True
     [Op_sendMessage 0x123 [1, 2, 3, 4, 5, 6, 7, 8] 8,
      Op_receiveMessage \<lparr>msg_id = 0, msg_dlc = 0, msg_data = array8 [0], msg_timestamp = 0\<rparr>,
      Op_testReceive \<lparr>msg_id = 0, msg_dlc = 0, msg_data = array8 [0], msg_timestamp = 0\<rparr>]
     boot_state =
   Inr (boot_state\<lparr>trace := [Call_CAN_sendMessage CANA_BASE 1 8
          [Some 1, Some 2, Some 3, Some 4, Some 5, Some 6, Some 7, Some 8]],
        canStats := (canStats boot_state)\<lparr>messagesTransmitted := 1, errorCount := 1\<rparr>\<rparr>)"
    by (simp add: CAN_sendMessage_eq CAN_receiveMessage_def CAN_testReceive_def
        poll_loop_idle bump_errorCount_def boot_state_def CAN_MODULE_def CAN_TX_MSG_OBJ_def)
  from flag_never_raised [of _ _ "[Op_sendMessage 0x123 [1, 2, 3, 4, 5, 6, 7, 8] 8,
      Op_receiveMessage \<lparr>msg_id = 0, msg_dlc = 0, msg_data = array8 [0], msg_timestamp = 0\<rparr>,
      Op_testReceive \<lparr>msg_id = 0, msg_dlc = 0, msg_data = array8 [0], msg_timestamp = 0\<rparr>]"]
    r
  show ?thesis by blast
qed

subsection \<open>The counters\<close>

lemma word_add_of_nat_mono:
  "unat (a :: u32) + n < 2 ^ 32 \<Longrightarrow> a \<le> a + of_nat n"
proof -
  assume h: "unat a + n < 2 ^ 32"
  then have n: "unat (of_nat n :: u32) = n"
    by (simp add: unat_of_nat)
  then have "unat (a + of_nat n) = unat a + n"
    using h by (simp add: unat_word_ariths)
  then show ?thesis by (simp add: word_le_nat_alt)
qed

lemma exec_api_counters:
  assumes "exec es rut op s = Inr s'" and "api_op op"
  shows "messagesTransmitted (canStats s') =
           messagesTransmitted (canStats s) + of_nat (sends [op])
         \<and> messagesReceived (canStats s') =
           messagesReceived (canStats s) + of_nat (receipts es rut [op] s)"
  using assms
  by (cases op)
    (auto simp: CAN_receiveMessage_def CAN_errorHandler_eq CAN_getStats_def
      dest!: CAN_sendMessage_Inr split: option.splits)

lemma sends_Cons: "sends (op # ops) = sends [op] + sends ops"
  by (cases op) simp_all

lemma receipts_Cons:
  "exec es rut op s = Inr s1 \<Longrightarrow>
   receipts es rut (op # ops) s = receipts es rut [op] s + receipts es rut ops s1"
  by simp

lemma run_api_counters:
  "run es rut ops s = Inr s' \<Longrightarrow> list_all api_op ops \<Longrightarrow>
   messagesTransmitted (canStats s') = messagesTransmitted (canStats s) + of_nat (sends ops)
   \<and> messagesReceived (canStats s') =
       messagesReceived (canStats s) + of_nat (receipts es rut ops s)"
proof (induction ops arbitrary: s)
  case Nil
  then show ?case by simp
next
  case (Cons op ops)
  then obtain s1 where e: "exec es rut op s = Inr s1" and r: "run es rut ops s1 = Inr s'"
    by (auto split: sum.splits)
  from Cons.prems have a: "api_op op" and as: "list_all api_op ops" by simp_all
  note one = exec_api_counters [OF e a]
  note rest = Cons.IH [OF r as]
  show ?case
    unfolding sends_Cons [of op ops] receipts_Cons [OF e, of ops]
    using one rest by (simp add: add.assoc)
qed

text \<open>
  Claim C4, as amended. Across any sequence of send, receive, statistics and error
  handler calls that runs without a fault, the sent counter ends at its first value plus
  the number of send calls and the received counter at its first value plus the number of
  receive calls that returned 1, both modulo \<open>2 ^ 32\<close>: each send adds exactly one, each
  successful receive adds exactly one, and nothing resets a counter. A counter that does
  not pass \<open>2 ^ 32 - 1\<close> on the way does not decrease.
\<close>

theorem counters_follow_calls:
  assumes "run es rut ops s = Inr s'" and "list_all api_op ops"
  shows "messagesTransmitted (canStats s') =
           messagesTransmitted (canStats s) + of_nat (sends ops)
         \<and> messagesReceived (canStats s') =
           messagesReceived (canStats s) + of_nat (receipts es rut ops s)
         \<and> (unat (messagesTransmitted (canStats s)) + sends ops < 2 ^ 32 \<longrightarrow>
              messagesTransmitted (canStats s) \<le> messagesTransmitted (canStats s'))
         \<and> (unat (messagesReceived (canStats s)) + receipts es rut ops s < 2 ^ 32 \<longrightarrow>
              messagesReceived (canStats s) \<le> messagesReceived (canStats s'))"
  using run_api_counters [OF assms] by (simp add: word_add_of_nat_mono)


theorem counters_follow_calls_witness:
  "run \<lparr>CAN_ES_TXWARN = 1, CAN_ES_RXWARN = 2, CAN_ES_TXERRPASSED = 4,
         CAN_ES_RXERRPASSED = 8, CAN_ES_BUSOFF = 0x80\<rparr> False
     [Op_sendMessage 0x123 [1, 2, 3, 4, 5, 6, 7, 8] 8,
      Op_receiveMessage \<lparr>msg_id = 0, msg_dlc = 0, msg_data = array8 [0], msg_timestamp = 0\<rparr>,
      Op_receiveMessage \<lparr>msg_id = 0, msg_dlc = 0, msg_data = array8 [0], msg_timestamp = 0\<rparr>,
      Op_errorHandler 1,
      Op_getStats None]
     (boot_state\<lparr>messageReceived := 1,
        lastRxMessage := \<lparr>msg_id = 0x456, msg_dlc = 2, msg_data = array8 [7, 9],
                           msg_timestamp = 0\<rparr>\<rparr>) =
   Inr \<lparr>canStats = \<lparr>messagesTransmitted = 1, messagesReceived = 1, errorCount = 1,
                      lastErrorCode = 1\<rparr>,
        lastRxMessage = \<lparr>msg_id = 0x456, msg_dlc = 2, msg_data = array8 [7, 9],
                           msg_timestamp = 0\<rparr>,
        messageReceived = 0,
        trace = [Call_CAN_sendMessage CANA_BASE 1 8
                   [Some 1, Some 2, Some 3, Some 4, Some 5, Some 6, Some 7, Some 8],
                 Call_GPIO_writePin DEVICE_GPIO_PIN_LED2 1]\<rparr>
   \<and> list_all api_op
     [Op_sendMessage 0x123 [1, 2, 3, 4, 5, 6, 7, 8] 8,
      Op_receiveMessage \<lparr>msg_id = 0, msg_dlc = 0, msg_data = array8 [0], msg_timestamp = 0\<rparr>,
      Op_receiveMessage \<lparr>msg_id = 0, msg_dlc = 0, msg_data = array8 [0], msg_timestamp = 0\<rparr>,
      Op_errorHandler 1,
      Op_getStats None]
   \<and> receipts \<lparr>CAN_ES_TXWARN = 1, CAN_ES_RXWARN = 2, CAN_ES_TXERRPASSED = 4,
         CAN_ES_RXERRPASSED = 8, CAN_ES_BUSOFF = 0x80\<rparr> False
     [Op_sendMessage 0x123 [1, 2, 3, 4, 5, 6, 7, 8] 8,
      Op_receiveMessage \<lparr>msg_id = 0, msg_dlc = 0, msg_data = array8 [0], msg_timestamp = 0\<rparr>,
      Op_receiveMessage \<lparr>msg_id = 0, msg_dlc = 0, msg_data = array8 [0], msg_timestamp = 0\<rparr>,
      Op_errorHandler 1,
      Op_getStats None]
     (boot_state\<lparr>messageReceived := 1,
        lastRxMessage := \<lparr>msg_id = 0x456, msg_dlc = 2, msg_data = array8 [7, 9],
                           msg_timestamp = 0\<rparr>\<rparr>) = 1"
proof -
  let ?es = "\<lparr>CAN_ES_TXWARN = 1, CAN_ES_RXWARN = 2, CAN_ES_TXERRPASSED = 4,
         CAN_ES_RXERRPASSED = 8, CAN_ES_BUSOFF = 0x80\<rparr>"
  let ?ops = "[Op_sendMessage 0x123 [1, 2, 3, 4, 5, 6, 7, 8] 8,
      Op_receiveMessage \<lparr>msg_id = 0, msg_dlc = 0, msg_data = array8 [0], msg_timestamp = 0\<rparr>,
      Op_receiveMessage \<lparr>msg_id = 0, msg_dlc = 0, msg_data = array8 [0], msg_timestamp = 0\<rparr>,
      Op_errorHandler 1,
      Op_getStats None]"
  let ?s = "boot_state\<lparr>messageReceived := 1,
        lastRxMessage := \<lparr>msg_id = 0x456, msg_dlc = 2, msg_data = array8 [7, 9],
                           msg_timestamp = 0\<rparr>\<rparr>"
  let ?s' = "\<lparr>canStats = \<lparr>messagesTransmitted = 1, messagesReceived = 1, errorCount = 1,
                      lastErrorCode = 1\<rparr>,
        lastRxMessage = \<lparr>msg_id = 0x456, msg_dlc = 2, msg_data = array8 [7, 9],
                           msg_timestamp = 0\<rparr>,
        messageReceived = 0,
        trace = [Call_CAN_sendMessage CANA_BASE 1 8
                   [Some 1, Some 2, Some 3, Some 4, Some 5, Some 6, Some 7, Some 8],
                 Call_GPIO_writePin DEVICE_GPIO_PIN_LED2 1]\<rparr>"
  have r: "run ?es False ?ops ?s = Inr ?s'"
    by (simp add: CAN_sendMessage_eq CAN_receiveMessage_def CAN_errorHandler_eq
        CAN_getStats_def boot_state_def CAN_MODULE_def CAN_TX_MSG_OBJ_def ERROR_LED_PIN_def)
  have a: "list_all api_op ?ops" by simp
  have c: "receipts ?es False ?ops ?s = 1"
    by (simp add: CAN_sendMessage_eq CAN_receiveMessage_def CAN_errorHandler_eq
        CAN_getStats_def boot_state_def)
  from counters_follow_calls [OF r a] r a c show ?thesis by simp
qed

text \<open>
  The claim as first stated, that the counters never decrease, fails where a counter
  wraps around: a send with the sent counter at \<open>2 ^ 32 - 1\<close> leaves it at 0.
\<close>

theorem sent_counter_wraps:
  "CAN_sendMessage 0x123 [1, 2, 3, 4, 5, 6, 7, 8] 8
     (boot_state\<lparr>canStats := (canStats boot_state)\<lparr>messagesTransmitted := 0xFFFFFFFF\<rparr>\<rparr>) =
   Inr (boot_state\<lparr>trace := [Call_CAN_sendMessage CANA_BASE 1 8
          [Some 1, Some 2, Some 3, Some 4, Some 5, Some 6, Some 7, Some 8]],
        canStats := (canStats boot_state)\<lparr>messagesTransmitted := 0\<rparr>\<rparr>)
   \<and> messagesTransmitted (canStats
        (boot_state\<lparr>canStats := (canStats boot_state)\<lparr>messagesTransmitted := 0xFFFFFFFF\<rparr>\<rparr>))
       = 0xFFFFFFFF
   \<and> (0 :: u32) < 0xFFFFFFFF"
  by (simp add: CAN_sendMessage_eq boot_state_def CAN_MODULE_def CAN_TX_MSG_OBJ_def)


subsection \<open>The receive test\<close>



lemma Test_CAN_ReceiveMessage_idle:
  assumes "messageReceived s = 0"
  shows "Test_CAN_ReceiveMessage rxMsg0 statsBeforeRx0 statsAfter0 s = (TEST_FAIL, s)"
  using assms
  by (simp add: Test_CAN_ReceiveMessage_def CAN_getStats_def pointee_def poll_loop_idle)






subsection \<open>The test run\<close>

lemma bytes_array8: "length xs = 8 \<Longrightarrow> bytes (array8 xs) = xs"
  by (simp add: bytes_def)

lemma length_bytes [simp]: "length (bytes a) = 8"
  by (simp add: bytes_def)

lemma list8_update_all:
  assumes "length xs = 8"
  shows "xs[0 := a, 1 := b, 2 := c, 3 := d, 4 := e, 5 := f, 6 := g, 7 := h] =
           [a, b, c, d, e, f, g, h]"
proof -
  from assms obtain x0 x1 x2 x3 x4 x5 x6 x7 where "xs = [x0, x1, x2, x3, x4, x5, x6, x7]"
    by (auto simp: length_Suc_conv eval_nat_numeral)
  then show ?thesis by simp
qed

lemma wr8_all:
  "wr8 (wr8 (wr8 (wr8 (wr8 (wr8 (wr8 (wr8 t 0 a) (Suc 0) b) 2 c) 3 d) 4 e) 5 f) 6 g) 7 h =
     array8 [a, b, c, d, e, f, g, h]"
proof -
  have "Rep_byte8 (wr8 (wr8 (wr8 (wr8 (wr8 (wr8 (wr8 (wr8 t 0 a) (Suc 0) b) 2 c) 3 d) 4 e) 5 f)
          6 g) 7 h) = Rep_byte8 (array8 [a, b, c, d, e, f, g, h])"
    using list8_update_all [of "Rep_byte8 t" a b c d e f g h] by simp
  then show ?thesis by (simp only: Rep_byte8_inject)
qed

lemma Test_CAN_BasicInitialization_eq:
  "Test_CAN_BasicInitialization stats0 s =
     (if messagesTransmitted (canStats s) = 0 \<and> messagesReceived (canStats s) = 0
      then TEST_PASS else TEST_FAIL, s)"
  by (simp add: Test_CAN_BasicInitialization_def CAN_getStats_def pointee_def)

lemma Test_CAN_TransmitMessage_eq:
  "Test_CAN_TransmitMessage statsBeforeTx0 statsAfter0 s =
     Inr (if messagesTransmitted (canStats s) < messagesTransmitted (canStats s) + 1
          then TEST_PASS else TEST_FAIL,
          s\<lparr>trace := trace s @
               [Call_CAN_sendMessage CANA_BASE 1 8
                  [Some 0xAA, Some 0x55, Some 0xFF, Some 0, Some 0x11, Some 0x22, Some 0x33,
                   Some 0x44],
                Call_Test_delay 100000],
            canStats := (canStats s)
              \<lparr>messagesTransmitted := messagesTransmitted (canStats s) + 1\<rparr>\<rparr>)"
  by (simp add: Test_CAN_TransmitMessage_def CAN_getStats_def pointee_def CAN_sendMessage_eq
      bytes_array8 Test_delay_def call_def TEST_DELAY_LOOPS_def CAN_MODULE_def
      CAN_TX_MSG_OBJ_def TEST_PATTERN_1_def TEST_PATTERN_2_def TEST_PATTERN_3_def
      TEST_PATTERN_4_def)

lemma Test_CAN_DataIntegrity_idle:
  assumes "messageReceived s = 0"
  shows "Test_CAN_DataIntegrity rxMsg0 s =
     Inr (TEST_FAIL,
          s\<lparr>trace := trace s @
               [Call_CAN_sendMessage CANA_BASE 1 8
                  [Some 1, Some 2, Some 3, Some 4, Some 5, Some 6, Some 7, Some 8],
                Call_Test_delay 100000],
            canStats := (canStats s)
              \<lparr>messagesTransmitted := messagesTransmitted (canStats s) + 1\<rparr>\<rparr>)"
  using assms
  by (simp add: Test_CAN_DataIntegrity_def CAN_sendMessage_eq bytes_array8 Test_delay_def
      call_def TEST_DELAY_LOOPS_def CAN_MODULE_def CAN_TX_MSG_OBJ_def poll_loop_idle)

lemma seq_loop_eq:
  "seq_loop 0 txData0 s =
     Inr (array8 [4, 0, 0xAA, 0xBB, 0xCC, 0xDD, 0xEE, 0xFF],
          s\<lparr>trace := trace s @
               [Call_CAN_sendMessage CANA_BASE 1 8
                  [Some 0, Some 0, Some 0xAA, Some 0xBB, Some 0xCC, Some 0xDD, Some 0xEE,
                   Some 0xFF],
                Call_Test_delay 20000,
                Call_CAN_sendMessage CANA_BASE 1 8
                  [Some 1, Some 0, Some 0xAA, Some 0xBB, Some 0xCC, Some 0xDD, Some 0xEE,
                   Some 0xFF],
                Call_Test_delay 20000,
                Call_CAN_sendMessage CANA_BASE 1 8
                  [Some 2, Some 0, Some 0xAA, Some 0xBB, Some 0xCC, Some 0xDD, Some 0xEE,
                   Some 0xFF],
                Call_Test_delay 20000,
                Call_CAN_sendMessage CANA_BASE 1 8
                  [Some 3, Some 0, Some 0xAA, Some 0xBB, Some 0xCC, Some 0xDD, Some 0xEE,
                   Some 0xFF],
                Call_Test_delay 20000,
                Call_CAN_sendMessage CANA_BASE 1 8
                  [Some 4, Some 0, Some 0xAA, Some 0xBB, Some 0xCC, Some 0xDD, Some 0xEE,
                   Some 0xFF],
                Call_Test_delay 20000],
            canStats := (canStats s)
              \<lparr>messagesTransmitted := messagesTransmitted (canStats s) + 5\<rparr>\<rparr>)"
  by (simp add: seq_loop.simps CAN_sendMessage_eq wr8_all bytes_array8 Test_delay_def
      call_def TEST_DELAY_LOOPS_def CAN_MODULE_def CAN_TX_MSG_OBJ_def Let_def)


lemma Test_CAN_SequentialMessages_eq:
  "Test_CAN_SequentialMessages txData0 statsBefore0 statsAfter0 s =
   Inr (TEST_PASS,
        s\<lparr>trace := trace s @
               [Call_CAN_sendMessage CANA_BASE 1 8
                  [Some 0, Some 0, Some 0xAA, Some 0xBB, Some 0xCC, Some 0xDD, Some 0xEE,
                   Some 0xFF],
                Call_Test_delay 20000,
                Call_CAN_sendMessage CANA_BASE 1 8
                  [Some 1, Some 0, Some 0xAA, Some 0xBB, Some 0xCC, Some 0xDD, Some 0xEE,
                   Some 0xFF],
                Call_Test_delay 20000,
                Call_CAN_sendMessage CANA_BASE 1 8
                  [Some 2, Some 0, Some 0xAA, Some 0xBB, Some 0xCC, Some 0xDD, Some 0xEE,
                   Some 0xFF],
                Call_Test_delay 20000,
                Call_CAN_sendMessage CANA_BASE 1 8
                  [Some 3, Some 0, Some 0xAA, Some 0xBB, Some 0xCC, Some 0xDD, Some 0xEE,
                   Some 0xFF],
                Call_Test_delay 20000,
                Call_CAN_sendMessage CANA_BASE 1 8
                  [Some 4, Some 0, Some 0xAA, Some 0xBB, Some 0xCC, Some 0xDD, Some 0xEE,
                   Some 0xFF],
                Call_Test_delay 20000,
                Call_Test_delay 100000],
            canStats := (canStats s)
              \<lparr>messagesTransmitted := messagesTransmitted (canStats s) + 5\<rparr>\<rparr>)"
  by (simp add: Test_CAN_SequentialMessages_def CAN_getStats_def pointee_def seq_loop_eq
      Test_delay_def call_def TEST_DELAY_LOOPS_def)

lemma Test_CAN_ErrorHandling_eq:
  "Test_CAN_ErrorHandling stats0 s =
     (if errorCount (canStats s) = 0 then TEST_PASS else TEST_FAIL, s)"
  by (simp add: Test_CAN_ErrorHandling_def CAN_getStats_def pointee_def)

lemma tally_eq:
  "tally result loops h =
     h\<lparr>drv := (drv h)\<lparr>trace := trace (drv h) @
            [Call_GPIO_writePin
               (if result = TEST_PASS then DEVICE_GPIO_PIN_LED1 else DEVICE_GPIO_PIN_LED2) 1,
             Call_Test_delay loops]\<rparr>,
       testStats := (testStats h)
         \<lparr>lastTestResult := (if result = TEST_PASS then 1 else 0),
          passedTests := passedTests (testStats h) + (if result = TEST_PASS then 1 else 0),
          failedTests := failedTests (testStats h) + (if result = TEST_PASS then 0 else 1)\<rparr>\<rparr>"
  by (simp add: tally_def Test_printResult_def on_drv_def Test_delay_def call_def
      TEST_PASS_def TEST_FAIL_def)

lemma six_tests_boot:
  "map_sum id (\<lambda>h. (testStats h, canStats (drv h), messageReceived (drv h)))
     (six_tests k harness_boot) =
   Inr (\<lparr>testNumber = 0, totalTests = 0, passedTests = 4, failedTests = 2,
         lastTestResult = 1, testName = []\<rparr>,
        \<lparr>messagesTransmitted = 7, messagesReceived = 0, errorCount = 0, lastErrorCode = 0\<rparr>,
        0)"
  by (simp add: six_tests_def harness_boot_def main_init_def CAN_initModule_eq
      boot_state_def testStats_init_def on_drv_def Test_initStatusLEDs_def Test_delay_def
      call_def Test_CAN_BasicInitialization_eq Test_CAN_TransmitMessage_eq
      Test_CAN_ReceiveMessage_idle Test_CAN_DataIntegrity_idle Test_CAN_ErrorHandling_eq
      Test_CAN_SequentialMessages_eq tally_eq TEST_PASS_def TEST_FAIL_def TEST_DELAY_LOOPS_def)

lemma Test_CAN_DataIntegrity_returns: "\<exists>x. Test_CAN_DataIntegrity rxMsg0 s = Inr x"
  by (simp add: Test_CAN_DataIntegrity_def CAN_sendMessage_eq bytes_array8 Let_def
      split: prod.splits)

lemma six_tests_returns: "\<exists>h'. six_tests k h = Inr h'"
proof -
  obtain x where x: "\<And>rxMsg0 s. Test_CAN_DataIntegrity rxMsg0 s = Inr (x rxMsg0 s)"
    using Test_CAN_DataIntegrity_returns by metis
  show ?thesis
    by (simp add: six_tests_def Let_def Test_CAN_TransmitMessage_eq x
        Test_CAN_SequentialMessages_eq split: prod.splits)
qed

lemma pulse_calls_eq:
  "pulse_calls pin =
     [Call_GPIO_togglePin pin, Call_Test_delay 200000,
      Call_GPIO_togglePin pin, Call_Test_delay 200000]"
  by (simp add: pulse_calls_def pulse_def Test_delay_def call_def boot_state_def)

lemma pulse_eq: "pulse pin s = s\<lparr>trace := trace s @ pulse_calls pin\<rparr>"
  by (simp add: pulse_calls_eq pulse_def Test_delay_def call_def)

lemma blink_passed_eq:
  "blink_passed idx h =
     h\<lparr>drv := (drv h)\<lparr>trace := trace (drv h) @
        concat (replicate (unat (passedTests (testStats h)) - idx)
                  (pulse_calls DEVICE_GPIO_PIN_LED1))\<rparr>\<rparr>"
proof (induction idx h rule: blink_passed.induct)
  case (1 idx h)
  show ?case
  proof (cases "idx < unat (passedTests (testStats h))")
    case True
    then have d: "unat (passedTests (testStats h)) - idx =
        Suc (unat (passedTests (testStats h)) - Suc idx)" by simp
    have "blink_passed idx h = blink_passed (Suc idx) (on_drv (pulse DEVICE_GPIO_PIN_LED1) h)"
      using True by (subst blink_passed.simps) simp
    also have "\<dots> = h\<lparr>drv := (drv h)\<lparr>trace := trace (drv h) @
        concat (replicate (unat (passedTests (testStats h)) - idx)
                  (pulse_calls DEVICE_GPIO_PIN_LED1))\<rparr>\<rparr>"
      unfolding "1.IH" [OF True] d by (simp add: on_drv_def pulse_eq)
    finally show ?thesis .
  next
    case False
    then show ?thesis by (subst blink_passed.simps) simp
  qed
qed

lemma blink_failed_eq:
  "blink_failed idx h =
     h\<lparr>drv := (drv h)\<lparr>trace := trace (drv h) @
        concat (replicate (unat (failedTests (testStats h)) - idx)
                  (pulse_calls DEVICE_GPIO_PIN_LED2))\<rparr>\<rparr>"
proof (induction idx h rule: blink_failed.induct)
  case (1 idx h)
  show ?case
  proof (cases "idx < unat (failedTests (testStats h))")
    case True
    then have d: "unat (failedTests (testStats h)) - idx =
        Suc (unat (failedTests (testStats h)) - Suc idx)" by simp
    have "blink_failed idx h = blink_failed (Suc idx) (on_drv (pulse DEVICE_GPIO_PIN_LED2) h)"
      using True by (subst blink_failed.simps) simp
    also have "\<dots> = h\<lparr>drv := (drv h)\<lparr>trace := trace (drv h) @
        concat (replicate (unat (failedTests (testStats h)) - idx)
                  (pulse_calls DEVICE_GPIO_PIN_LED2))\<rparr>\<rparr>"
      unfolding "1.IH" [OF True] d by (simp add: on_drv_def pulse_eq)
    finally show ?thesis .
  next
    case False
    then show ?thesis by (subst blink_failed.simps) simp
  qed
qed

lemma report_iteration_eq:
  "report_iteration h =
     h\<lparr>drv := (drv h)\<lparr>trace := trace (drv h) @
        concat (replicate (unat (passedTests (testStats h))) (pulse_calls DEVICE_GPIO_PIN_LED1)) @
        [Call_Test_delay 500000] @
        concat (replicate (unat (failedTests (testStats h))) (pulse_calls DEVICE_GPIO_PIN_LED2)) @
        [Call_Test_delay 1000000]\<rparr>\<rparr>"
  by (simp add: report_iteration_def blink_passed_eq blink_failed_eq on_drv_def Test_delay_def
      call_def)

lemma report_loop_never_returns: "report_loop counter h = None"
proof -
  have "False" if "report_loop counter h = Some y" for y
    by (rule report_loop.raw_induct [where P = "\<lambda>_ _ _. False", OF _ that]) blast
  then show ?thesis by (cases "report_loop counter h") auto
qed

lemma report_rounds_eq:
  "report_rounds n h =
     h\<lparr>drv := (drv h)\<lparr>trace := trace (drv h) @
        concat (replicate n
          (concat (replicate (unat (passedTests (testStats h)))
             (pulse_calls DEVICE_GPIO_PIN_LED1)) @
           [Call_Test_delay 500000] @
           concat (replicate (unat (failedTests (testStats h)))
             (pulse_calls DEVICE_GPIO_PIN_LED2)) @
           [Call_Test_delay 1000000]))\<rparr>\<rparr>"
proof (induction n arbitrary: h)
  case 0
  then show ?case by simp
next
  case (Suc n)
  show ?case
    unfolding report_rounds.simps Suc.IH by (simp add: report_iteration_eq)
qed

text \<open>
  Claim C10, evaluated. From the state in which \<^verbatim>\<open>main\<close> calls the harness, with no
  fault notified and nothing raising the flag, the six tests end with four passed and two
  failed: the receive test and the data-integrity test use up their retry budgets. From
  any state the harness never returns. Each round of its endless loop pulses the pass
  indicator once per passed test, waits 500000 iterations, pulses the fail indicator once
  per failed test and waits 1000000 iterations, leaving the tallies as they are, so that
  every round repeats the first; a pulse is toggle, wait, toggle, wait.
\<close>

theorem harness_run_from_boot:
  "map_sum id (\<lambda>h. (passedTests (testStats h), failedTests (testStats h)))
     (six_tests k harness_boot) = Inr (4, 2)
   \<and> CAN_runUnitTests k h0 = None
   \<and> report_iteration h =
       h\<lparr>drv := (drv h)\<lparr>trace := trace (drv h) @
          concat (replicate (unat (passedTests (testStats h)))
                    (pulse_calls DEVICE_GPIO_PIN_LED1)) @
          [Call_Test_delay 500000] @
          concat (replicate (unat (failedTests (testStats h)))
                    (pulse_calls DEVICE_GPIO_PIN_LED2)) @
          [Call_Test_delay 1000000]\<rparr>\<rparr>
   \<and> report_rounds n h =
       h\<lparr>drv := (drv h)\<lparr>trace := trace (drv h) @
          concat (replicate n
            (concat (replicate (unat (passedTests (testStats h)))
               (pulse_calls DEVICE_GPIO_PIN_LED1)) @
             [Call_Test_delay 500000] @
             concat (replicate (unat (failedTests (testStats h)))
               (pulse_calls DEVICE_GPIO_PIN_LED2)) @
             [Call_Test_delay 1000000]))\<rparr>\<rparr>
   \<and> pulse_calls pin =
       [Call_GPIO_togglePin pin, Call_Test_delay 200000,
        Call_GPIO_togglePin pin, Call_Test_delay 200000]"
proof -
  have t: "map_sum id (\<lambda>h. (passedTests (testStats h), failedTests (testStats h)))
             (six_tests k harness_boot) = Inr (4, 2)"
    using six_tests_boot [of k] by (cases "six_tests k harness_boot") auto
  obtain h' where "six_tests k h0 = Inr h'"
    using six_tests_returns by blast
  then have n: "CAN_runUnitTests k h0 = None"
    by (simp add: CAN_runUnitTests_def report_loop_never_returns)
  show ?thesis
    using t n report_iteration_eq [of h] report_rounds_eq [of n h] pulse_calls_eq [of pin]
    by simp
qed

end
